theory Spec2Isabelle
  imports Main "HOL-Library.Monad_Syntax"
begin

section \<open>Request payloads and the schema validator\<close>

text \<open>
  A request body is the object that \<^verbatim>\<open>express.json()\<close> parsed: a list of
  key/value pairs with distinct keys, read with \<open>map_of\<close>. A number that is
  not integral is \<open>JFrac\<close>: no handler reads its value, the schemas that take a
  number ask for \<^verbatim>\<open>z.number().int()\<close>.
\<close>

datatype json =
    JNull
  | JBool bool
  | JNum int
  | JFrac
  | JStr string
  | JArr "json list"
  | JObj "(string \<times> json) list"

type_synonym jobject = "(string \<times> json) list"

text \<open>
  A validated field of a \<^verbatim>\<open>.nullable().optional()\<close> schema has three states:
  the key was absent (\<^verbatim>\<open>undefined\<close>), it was \<^verbatim>\<open>null\<close>, or it holds a value.
\<close>

datatype 'a opt = Undefined | Null | Val 'a

text \<open>
  The parts of the validation library that are not in the repository: the
  e-mail and URL tests of \<^verbatim>\<open>z.string().email()\<close> and \<^verbatim>\<open>z.string().url()\<close>, and
  the date coercion of \<^verbatim>\<open>z.coerce.date()\<close> followed by \<^verbatim>\<open>toISOString()\<close>
  (\<open>None\<close> for an invalid date). The handlers take them as a parameter.
\<close>

record zod_lib =
  is_email :: "string \<Rightarrow> bool"
  is_url :: "string \<Rightarrow> bool"
  coerce_date :: "json \<Rightarrow> string option"

text \<open>\<^verbatim>\<open>{ user_id, ...req.body }\<close>: a key of the body overrides the path parameter.\<close>

definition spread :: "string \<Rightarrow> string \<Rightarrow> jobject \<Rightarrow> jobject" where
  "spread k v b = (case map_of b k of None \<Rightarrow> (k, JStr v) # b | Some _ \<Rightarrow> b)"

text \<open>Schema combinators; \<open>None\<close> is the \<^verbatim>\<open>ZodError\<close> that \<^verbatim>\<open>parse\<close> throws.\<close>

fun z_string :: "json \<Rightarrow> string option" where
  "z_string (JStr s) = Some s"
| "z_string _ = None"

fun z_int :: "json \<Rightarrow> int option" where
  "z_int (JNum n) = Some n"
| "z_int _ = None"

definition z_email :: "zod_lib \<Rightarrow> json \<Rightarrow> string option" where
  "z_email z j = (case z_string j of None \<Rightarrow> None
                  | Some s \<Rightarrow> if is_email z s then Some s else None)"

definition z_url :: "zod_lib \<Rightarrow> json \<Rightarrow> string option" where
  "z_url z j = (case z_string j of None \<Rightarrow> None
                | Some s \<Rightarrow> if is_url z s then Some s else None)"

fun z_string_array_items :: "json list \<Rightarrow> string list option" where
  "z_string_array_items [] = Some []"
| "z_string_array_items (j # js) =
     (case z_string j of None \<Rightarrow> None
      | Some s \<Rightarrow> (case z_string_array_items js of None \<Rightarrow> None
                   | Some ss \<Rightarrow> Some (s # ss)))"

fun z_string_array :: "json \<Rightarrow> string list option" where
  "z_string_array (JArr js) = z_string_array_items js"
| "z_string_array _ = None"

fun z_string_record_items :: "(string \<times> json) list \<Rightarrow> (string \<times> string) list option" where
  "z_string_record_items [] = Some []"
| "z_string_record_items ((k, j) # kjs) =
     (case z_string j of None \<Rightarrow> None
      | Some s \<Rightarrow> (case z_string_record_items kjs of None \<Rightarrow> None
                   | Some r \<Rightarrow> Some ((k, s) # r)))"

fun z_string_record :: "json \<Rightarrow> (string \<times> string) list option" where
  "z_string_record (JObj kjs) = z_string_record_items kjs"
| "z_string_record _ = None"

definition required :: "(json \<Rightarrow> 'a option) \<Rightarrow> json option \<Rightarrow> 'a option" where
  "required p f = (case f of None \<Rightarrow> None | Some j \<Rightarrow> p j)"

definition optional :: "(json \<Rightarrow> 'a option) \<Rightarrow> json option \<Rightarrow> 'a option option" where
  "optional p f = (case f of None \<Rightarrow> Some None | Some j \<Rightarrow> map_option Some (p j))"

definition nullable_optional :: "(json \<Rightarrow> 'a option) \<Rightarrow> json option \<Rightarrow> 'a opt option" where
  "nullable_optional p f =
     (case f of None \<Rightarrow> Some Undefined
      | Some JNull \<Rightarrow> Some Null
      | Some j \<Rightarrow> map_option Val (p j))"

text \<open>
  A query parameter: \<^verbatim>\<open>undefined\<close> and \<^verbatim>\<open>null\<close> are both sent as SQL
  \<^verbatim>\<open>NULL\<close>.
\<close>

fun sql_param :: "'a opt \<Rightarrow> 'a option" where
  "sql_param Undefined = None"
| "sql_param Null = None"
| "sql_param (Val v) = Some v"

section \<open>The relational store\<close>

text \<open>
  One list of rows per table of the schema; \<open>None\<close> is SQL \<^verbatim>\<open>NULL\<close>. A
  column of type \<^verbatim>\<open>JSON\<close> holds the value whose text was written into it, and
  the database driver hands it back as that value, already parsed, not as
  text. The columns \<open>popular_projects\<close> and \<open>interaction_data\<close> hold objects
  (\<^verbatim>\<open>z.record\<close> in \<^verbatim>\<open>analyticsSchema\<close>); \<open>pr_images\<close> holds the list \<open>l\<close> of
  the object \<^verbatim>\<open>{"images": l}\<close> that the server writes.
\<close>

record user_row =
  u_user_id :: string
  u_email :: string
  u_password_hash :: string
  u_name :: "string option"
  u_created_at :: string

record profile_row =
  up_user_id :: string
  profile_picture_url :: "string option"
  cover_image_url :: "string option"
  bio :: "string option"
  contact_email :: "string option"
  phone_number :: "string option"
  social_media_links :: "(string \<times> string) list option"

record settings_row =
  us_user_id :: string
  color_scheme :: "(string \<times> string) list option"
  chosen_template :: "string option"
  font_selection :: "string option"

record project_row =
  pr_project_id :: string
  pr_user_id :: string
  pr_title :: string
  pr_description :: "string option"
  pr_images :: "string list option"
  pr_project_url :: "string option"

record skill_row =
  sk_skill_id :: string
  sk_user_id :: string
  skill_name :: string
  proficiency_level :: "int option"

record experience_row =
  ex_experience_id :: string
  ex_user_id :: string
  ex_title :: string
  ex_description :: "string option"
  start_date :: string
  end_date :: "string option"

record testimonial_row =
  te_testimonial_id :: string
  te_user_id :: string
  client_name :: string
  feedback :: "string option"

record blog_post_row =
  bp_post_id :: string
  bp_user_id :: string
  bp_title :: string
  bp_content :: "string option"
  bp_created_at :: string

record comment_row =
  co_comment_id :: string
  co_project_id :: string
  co_user_name :: "string option"
  co_content :: string
  co_created_at :: string

record visitor_message_row =
  vm_message_id :: string
  vm_user_id :: string
  visitor_email :: "string option"
  visitor_message :: string
  sent_at :: string

record analytics_row =
  an_analytics_id :: string
  an_user_id :: string
  visit_count :: int
  popular_projects :: "jobject option"
  interaction_data :: "jobject option"

record db =
  users :: "user_row list"
  user_profiles :: "profile_row list"
  project_templates :: "string list"
  user_settings :: "settings_row list"
  projects :: "project_row list"
  skills :: "skill_row list"
  experience_timeline :: "experience_row list"
  testimonials :: "testimonial_row list"
  blog_posts :: "blog_post_row list"
  comments :: "comment_row list"
  visitor_messages :: "visitor_message_row list"
  analytics :: "analytics_row list"

text \<open>
  \<open>project_templates\<close> keeps the template ids only: the server reads the
  table through the foreign key of \<open>user_settings\<close> and nowhere else.
\<close>

definition user_exists :: "db \<Rightarrow> string \<Rightarrow> bool" where
  "user_exists d uid = (uid \<in> set (map u_user_id (users d)))"

text \<open>
  \<^verbatim>\<open>INSERT\<close> statements. \<open>None\<close> is the error the store raises when a
  \<^verbatim>\<open>PRIMARY KEY\<close>, \<^verbatim>\<open>UNIQUE\<close> or \<^verbatim>\<open>REFERENCES\<close> constraint of the schema is
  violated.
\<close>

definition insert_user :: "db \<Rightarrow> user_row \<Rightarrow> db option" where
  "insert_user d r =
     (if u_user_id r \<in> set (map u_user_id (users d)) \<or> u_email r \<in> set (map u_email (users d))
      then None else Some (d\<lparr>users := users d @ [r]\<rparr>))"

definition insert_user_profile :: "db \<Rightarrow> profile_row \<Rightarrow> db option" where
  "insert_user_profile d r =
     (if up_user_id r \<in> set (map up_user_id (user_profiles d)) \<or> \<not> user_exists d (up_user_id r)
      then None else Some (d\<lparr>user_profiles := user_profiles d @ [r]\<rparr>))"

definition insert_project :: "db \<Rightarrow> project_row \<Rightarrow> db option" where
  "insert_project d r =
     (if pr_project_id r \<in> set (map pr_project_id (projects d)) \<or> \<not> user_exists d (pr_user_id r)
      then None else Some (d\<lparr>projects := projects d @ [r]\<rparr>))"

text \<open>\<open>proficiency_level\<close> is an \<^verbatim>\<open>INTEGER\<close> column: 32 bits, signed.\<close>

definition fits_integer :: "int option \<Rightarrow> bool" where
  "fits_integer v =
     (case v of None \<Rightarrow> True | Some n \<Rightarrow> - 2147483648 \<le> n \<and> n \<le> 2147483647)"

definition insert_skill :: "db \<Rightarrow> skill_row \<Rightarrow> db option" where
  "insert_skill d r =
     (if sk_skill_id r \<in> set (map sk_skill_id (skills d)) \<or> \<not> user_exists d (sk_user_id r)
         \<or> \<not> fits_integer (proficiency_level r)
      then None else Some (d\<lparr>skills := skills d @ [r]\<rparr>))"

definition insert_experience :: "db \<Rightarrow> experience_row \<Rightarrow> db option" where
  "insert_experience d r =
     (if ex_experience_id r \<in> set (map ex_experience_id (experience_timeline d))
         \<or> \<not> user_exists d (ex_user_id r)
      then None else Some (d\<lparr>experience_timeline := experience_timeline d @ [r]\<rparr>))"

definition insert_testimonial :: "db \<Rightarrow> testimonial_row \<Rightarrow> db option" where
  "insert_testimonial d r =
     (if te_testimonial_id r \<in> set (map te_testimonial_id (testimonials d))
         \<or> \<not> user_exists d (te_user_id r)
      then None else Some (d\<lparr>testimonials := testimonials d @ [r]\<rparr>))"

definition insert_blog_post :: "db \<Rightarrow> blog_post_row \<Rightarrow> db option" where
  "insert_blog_post d r =
     (if bp_post_id r \<in> set (map bp_post_id (blog_posts d)) \<or> \<not> user_exists d (bp_user_id r)
      then None else Some (d\<lparr>blog_posts := blog_posts d @ [r]\<rparr>))"

definition insert_comment :: "db \<Rightarrow> comment_row \<Rightarrow> db option" where
  "insert_comment d r =
     (if co_comment_id r \<in> set (map co_comment_id (comments d))
         \<or> co_project_id r \<notin> set (map pr_project_id (projects d))
      then None else Some (d\<lparr>comments := comments d @ [r]\<rparr>))"

definition insert_visitor_message :: "db \<Rightarrow> visitor_message_row \<Rightarrow> db option" where
  "insert_visitor_message d r =
     (if vm_message_id r \<in> set (map vm_message_id (visitor_messages d))
         \<or> \<not> user_exists d (vm_user_id r)
      then None else Some (d\<lparr>visitor_messages := visitor_messages d @ [r]\<rparr>))"

definition insert_analytics :: "db \<Rightarrow> analytics_row \<Rightarrow> db option" where
  "insert_analytics d r =
     (if an_analytics_id r \<in> set (map an_analytics_id (analytics d)) \<or> \<not> user_exists d (an_user_id r)
      then None else Some (d\<lparr>analytics := analytics d @ [r]\<rparr>))"

text \<open>
  \<^verbatim>\<open>DELETE FROM projects WHERE project_id = $1\<close>: the store refuses the statement
  while a comment still references the project.
\<close>

definition delete_comments_of :: "db \<Rightarrow> string \<Rightarrow> db" where
  "delete_comments_of d pid = d\<lparr>comments := filter (\<lambda>c. co_project_id c \<noteq> pid) (comments d)\<rparr>"

definition delete_project :: "db \<Rightarrow> string \<Rightarrow> db option" where
  "delete_project d pid =
     (if pid \<in> set (map pr_project_id (projects d)) \<and> pid \<in> set (map co_project_id (comments d))
      then None
      else Some (d\<lparr>projects := filter (\<lambda>p. pr_project_id p \<noteq> pid) (projects d)\<rparr>))"

section \<open>Validated payloads\<close>

text \<open>The input schemas the server imports, each with the record it parses to.\<close>

record create_user_input =
  cu_email :: string
  cu_password_hash :: string
  cu_name :: "string opt"

definition createUserInputSchema :: "zod_lib \<Rightarrow> jobject \<Rightarrow> create_user_input option" where
  "createUserInputSchema z b = do {
     e \<leftarrow> required (z_email z) (map_of b ''email'');
     p \<leftarrow> required z_string (map_of b ''password_hash'');
     n \<leftarrow> nullable_optional z_string (map_of b ''name'');
     Some \<lparr>cu_email = e, cu_password_hash = p, cu_name = n\<rparr> }"

record update_user_profile_input =
  uu_user_id :: string
  uu_profile_picture_url :: "string opt"
  uu_cover_image_url :: "string opt"
  uu_bio :: "string opt"
  uu_contact_email :: "string opt"
  uu_phone_number :: "string opt"
  uu_social_media_links :: "(string \<times> string) list opt"

definition updateUserProfileInputSchema :: "zod_lib \<Rightarrow> jobject \<Rightarrow> update_user_profile_input option" where
  "updateUserProfileInputSchema z b = do {
     u \<leftarrow> required z_string (map_of b ''user_id'');
     pp \<leftarrow> nullable_optional z_string (map_of b ''profile_picture_url'');
     ci \<leftarrow> nullable_optional z_string (map_of b ''cover_image_url'');
     bi \<leftarrow> nullable_optional z_string (map_of b ''bio'');
     ce \<leftarrow> nullable_optional (z_email z) (map_of b ''contact_email'');
     pn \<leftarrow> nullable_optional z_string (map_of b ''phone_number'');
     sm \<leftarrow> nullable_optional z_string_record (map_of b ''social_media_links'');
     Some \<lparr>uu_user_id = u, uu_profile_picture_url = pp, uu_cover_image_url = ci, uu_bio = bi,
           uu_contact_email = ce, uu_phone_number = pn, uu_social_media_links = sm\<rparr> }"

record create_user_settings_input =
  cs_user_id :: string
  cs_color_scheme :: "(string \<times> string) list opt"
  cs_chosen_template :: "string opt"
  cs_font_selection :: "string opt"

definition createUserSettingsInputSchema :: "jobject \<Rightarrow> create_user_settings_input option" where
  "createUserSettingsInputSchema b = do {
     u \<leftarrow> required z_string (map_of b ''user_id'');
     c \<leftarrow> nullable_optional z_string_record (map_of b ''color_scheme'');
     t \<leftarrow> nullable_optional z_string (map_of b ''chosen_template'');
     f \<leftarrow> nullable_optional z_string (map_of b ''font_selection'');
     Some \<lparr>cs_user_id = u, cs_color_scheme = c, cs_chosen_template = t, cs_font_selection = f\<rparr> }"

record create_project_input =
  cp_user_id :: string
  cp_title :: string
  cp_description :: "string opt"
  cp_images :: "string list opt"
  cp_project_url :: "string opt"

definition createProjectInputSchema :: "zod_lib \<Rightarrow> jobject \<Rightarrow> create_project_input option" where
  "createProjectInputSchema z b = do {
     u \<leftarrow> required z_string (map_of b ''user_id'');
     t \<leftarrow> required z_string (map_of b ''title'');
     de \<leftarrow> nullable_optional z_string (map_of b ''description'');
     im \<leftarrow> nullable_optional z_string_array (map_of b ''images'');
     pu \<leftarrow> nullable_optional (z_url z) (map_of b ''project_url'');
     Some \<lparr>cp_user_id = u, cp_title = t, cp_description = de, cp_images = im,
           cp_project_url = pu\<rparr> }"

record create_skill_input =
  ck_user_id :: string
  ck_skill_name :: string
  ck_proficiency_level :: "int option"

definition createSkillInputSchema :: "jobject \<Rightarrow> create_skill_input option" where
  "createSkillInputSchema b = do {
     u \<leftarrow> required z_string (map_of b ''user_id'');
     n \<leftarrow> required z_string (map_of b ''skill_name'');
     l \<leftarrow> optional z_int (map_of b ''proficiency_level'');
     Some \<lparr>ck_user_id = u, ck_skill_name = n, ck_proficiency_level = l\<rparr> }"

record create_experience_timeline_input =
  ce_user_id :: string
  ce_title :: string
  ce_description :: "string opt"
  ce_start_date :: string
  ce_end_date :: "string opt"

definition createExperienceTimelineInputSchema ::
  "zod_lib \<Rightarrow> jobject \<Rightarrow> create_experience_timeline_input option" where
  "createExperienceTimelineInputSchema z b = do {
     u \<leftarrow> required z_string (map_of b ''user_id'');
     t \<leftarrow> required z_string (map_of b ''title'');
     de \<leftarrow> nullable_optional z_string (map_of b ''description'');
     sd \<leftarrow> required (coerce_date z) (map_of b ''start_date'');
     ed \<leftarrow> nullable_optional (coerce_date z) (map_of b ''end_date'');
     Some \<lparr>ce_user_id = u, ce_title = t, ce_description = de, ce_start_date = sd,
           ce_end_date = ed\<rparr> }"

record create_testimonial_input =
  ct_user_id :: string
  ct_client_name :: string
  ct_feedback :: "string opt"

definition createTestimonialInputSchema :: "jobject \<Rightarrow> create_testimonial_input option" where
  "createTestimonialInputSchema b = do {
     u \<leftarrow> required z_string (map_of b ''user_id'');
     c \<leftarrow> required z_string (map_of b ''client_name'');
     f \<leftarrow> nullable_optional z_string (map_of b ''feedback'');
     Some \<lparr>ct_user_id = u, ct_client_name = c, ct_feedback = f\<rparr> }"

record create_blog_post_input =
  cb_user_id :: string
  cb_title :: string
  cb_content :: "string opt"

definition createBlogPostInputSchema :: "jobject \<Rightarrow> create_blog_post_input option" where
  "createBlogPostInputSchema b = do {
     u \<leftarrow> required z_string (map_of b ''user_id'');
     t \<leftarrow> required z_string (map_of b ''title'');
     c \<leftarrow> nullable_optional z_string (map_of b ''content'');
     Some \<lparr>cb_user_id = u, cb_title = t, cb_content = c\<rparr> }"

record create_comment_input =
  cc_project_id :: string
  cc_user_name :: "string opt"
  cc_content :: string

definition createCommentInputSchema :: "jobject \<Rightarrow> create_comment_input option" where
  "createCommentInputSchema b = do {
     p \<leftarrow> required z_string (map_of b ''project_id'');
     n \<leftarrow> nullable_optional z_string (map_of b ''user_name'');
     c \<leftarrow> required z_string (map_of b ''content'');
     Some \<lparr>cc_project_id = p, cc_user_name = n, cc_content = c\<rparr> }"

record create_visitor_message_input =
  cv_user_id :: string
  cv_visitor_email :: "string opt"
  cv_visitor_message :: string

definition createVisitorMessageInputSchema ::
  "zod_lib \<Rightarrow> jobject \<Rightarrow> create_visitor_message_input option" where
  "createVisitorMessageInputSchema z b = do {
     u \<leftarrow> required z_string (map_of b ''user_id'');
     e \<leftarrow> nullable_optional (z_email z) (map_of b ''visitor_email'');
     m \<leftarrow> required z_string (map_of b ''visitor_message'');
     Some \<lparr>cv_user_id = u, cv_visitor_email = e, cv_visitor_message = m\<rparr> }"

section \<open>Responses and the error envelope\<close>

datatype thrown = ZodError | StoreError | JwtError | TypeError | SyntaxError

record principal =
  p_user_id :: string
  p_email :: string
  p_name :: "string option"
  p_created_at :: string

text \<open>
  The body of a response. \<open>ErrorResponse message details error_code\<close> is the
  envelope of \<^verbatim>\<open>createErrorResponse(message, error, errorCode)\<close>; its timestamp is
  left out. \<open>DefaultErrorPage\<close> is the page of the framework's own error
  handler, which answers when a middleware passes an error on.
\<close>

datatype body =
    ErrorResponse string "thrown option" string
  | Message string
  | Empty
  | AuthBody principal string
  | ProjectBody project_row
  | SkillBody skill_row
  | ExperienceBody experience_row
  | TestimonialBody testimonial_row
  | BlogPostBody blog_post_row
  | CommentBody comment_row
  | AnalyticsBody analytics_row
  | UploadBody string string string nat
  | DefaultErrorPage

record response =
  status :: nat
  body :: body

definition createErrorResponse :: "string \<Rightarrow> thrown option \<Rightarrow> string \<Rightarrow> body" where
  "createErrorResponse message error errorCode = ErrorResponse message error errorCode"

definition reply :: "nat \<Rightarrow> body \<Rightarrow> response" where
  "reply s b = \<lparr>status = s, body = b\<rparr>"

text \<open>The \<^verbatim>\<open>catch\<close> block that every route handler ends with.\<close>

definition internal_error :: "thrown \<Rightarrow> response" where
  "internal_error e =
     reply 500 (createErrorResponse ''Internal server error'' (Some e) ''INTERNAL_SERVER_ERROR'')"

section \<open>Authentication middleware\<close>

text \<open>
  The token library is not in the repository. \<open>jwt_verify\<close> is
  \<^verbatim>\<open>jwt.verify(token, JWT_SECRET)\<close>: \<open>None\<close> when it throws (bad signature,
  malformed or expired token), otherwise the \<^verbatim>\<open>user_id\<close> of the decoded payload,
  if it has one. \<open>jwt_sign\<close> is \<^verbatim>\<open>jwt.sign\<close> on a user id and an e-mail.
\<close>

record jwt_lib =
  jwt_verify :: "string \<Rightarrow> string option option"
  jwt_sign :: "string \<Rightarrow> string \<Rightarrow> string"

fun split_on :: "char \<Rightarrow> string \<Rightarrow> string list" where
  "split_on c [] = [[]]"
| "split_on c (x # xs) =
     (if x = c then [] # split_on c xs
      else (case split_on c xs of w # ws \<Rightarrow> (x # w) # ws | [] \<Rightarrow> [[x]]))"

text \<open>\<^verbatim>\<open>authHeader && authHeader.split(' ')[1]\<close>; \<open>None\<close> is a falsy token.\<close>

definition bearer_token :: "string option \<Rightarrow> string option" where
  "bearer_token authHeader =
     (case authHeader of None \<Rightarrow> None
      | Some h \<Rightarrow> (case split_on CHR '' '' h of
                    _ # t # _ \<Rightarrow> (if t = [] then None else Some t)
                  | _ \<Rightarrow> None))"

definition to_principal :: "user_row \<Rightarrow> principal" where
  "to_principal u = \<lparr>p_user_id = u_user_id u, p_email = u_email u, p_name = u_name u,
                     p_created_at = u_created_at u\<rparr>"

definition authenticateToken :: "jwt_lib \<Rightarrow> db \<Rightarrow> string option \<Rightarrow> response + principal" where
  "authenticateToken j d authHeader =
     (case bearer_token authHeader of
        None \<Rightarrow> Inl (reply 401 (createErrorResponse ''Access token required'' None ''AUTH_TOKEN_MISSING''))
      | Some token \<Rightarrow>
          (case jwt_verify j token of
             None \<Rightarrow> Inl (reply 403 (createErrorResponse ''Invalid or expired token'' (Some JwtError)
                                       ''AUTH_TOKEN_INVALID''))
           | Some decoded \<Rightarrow>
               (case filter (\<lambda>u. Some (u_user_id u) = decoded) (users d) of
                  [] \<Rightarrow> Inl (reply 401 (createErrorResponse ''Invalid token'' None ''AUTH_TOKEN_INVALID''))
                | u # _ \<Rightarrow> Inr (to_principal u))))"

text \<open>A protected route: the middleware, then the handler with \<^verbatim>\<open>req.user\<close> bound.\<close>

definition protected ::
  "jwt_lib \<Rightarrow> db \<Rightarrow> string option \<Rightarrow> (principal \<Rightarrow> response \<times> db) \<Rightarrow> response \<times> db" where
  "protected j d authHeader handler =
     (case authenticateToken j d authHeader of
        Inl r \<Rightarrow> (r, d)
      | Inr user \<Rightarrow> handler user)"

section \<open>Route handlers\<close>

text \<open>
  Every handler takes the store and returns the response with the store it
  leaves. The generated identifier (\<^verbatim>\<open>uuidv4()\<close>) and the clock
  (\<^verbatim>\<open>new Date().toISOString()\<close>) of a request are arguments.
\<close>

definition forbidden :: "string \<Rightarrow> response" where
  "forbidden message = reply 403 (createErrorResponse message None ''FORBIDDEN'')"

definition not_found :: "string \<Rightarrow> string \<Rightarrow> response" where
  "not_found message code = reply 404 (createErrorResponse message None code)"

subsection \<open>Profile and settings\<close>

text \<open>
  One entry of the dynamic \<^verbatim>\<open>SET\<close> list: a key whose value is
  \<^verbatim>\<open>undefined\<close> is skipped, a \<^verbatim>\<open>null\<close> is written as \<^verbatim>\<open>NULL\<close>.
\<close>

fun assign :: "'a opt \<Rightarrow> 'a option \<Rightarrow> 'a option" where
  "assign Undefined old = old"
| "assign Null old = None"
| "assign (Val v) old = Some v"

fun present :: "'a opt \<Rightarrow> bool" where
  "present Undefined = False"
| "present _ = True"

definition updateFields_empty :: "update_user_profile_input \<Rightarrow> bool" where
  "updateFields_empty v =
     (\<not> present (uu_profile_picture_url v) \<and> \<not> present (uu_cover_image_url v)
      \<and> \<not> present (uu_bio v) \<and> \<not> present (uu_contact_email v)
      \<and> \<not> present (uu_phone_number v) \<and> \<not> present (uu_social_media_links v))"

definition update_profile_row :: "update_user_profile_input \<Rightarrow> profile_row \<Rightarrow> profile_row" where
  "update_profile_row v r =
     r\<lparr>profile_picture_url := assign (uu_profile_picture_url v) (profile_picture_url r),
       cover_image_url := assign (uu_cover_image_url v) (cover_image_url r),
       bio := assign (uu_bio v) (bio r),
       contact_email := assign (uu_contact_email v) (contact_email r),
       phone_number := assign (uu_phone_number v) (phone_number r),
       social_media_links := assign (uu_social_media_links v) (social_media_links r)\<rparr>"

definition patch_user :: "zod_lib \<Rightarrow> db \<Rightarrow> principal \<Rightarrow> string \<Rightarrow> jobject \<Rightarrow> response \<times> db" where
  "patch_user z d user user_id b =
     (if p_user_id user \<noteq> user_id
      then (forbidden ''Cannot update another user's profile'', d)
      else (case updateUserProfileInputSchema z (spread ''user_id'' user_id b) of
              None \<Rightarrow> (internal_error ZodError, d)
            | Some v \<Rightarrow>
                if updateFields_empty v
                then (reply 400 (createErrorResponse ''No fields to update'' None ''NO_UPDATE_FIELDS''), d)
                else if filter (\<lambda>r. up_user_id r = user_id) (user_profiles d) = []
                then (not_found ''User profile not found'' ''PROFILE_NOT_FOUND'', d)
                else (reply 200 (Message ''Profile updated successfully''),
                      d\<lparr>user_profiles :=
                          map (\<lambda>r. if up_user_id r = user_id then update_profile_row v r else r)
                              (user_profiles d)\<rparr>)))"

text \<open>
  \<^verbatim>\<open>INSERT INTO user_settings ... ON CONFLICT (user_id) DO UPDATE\<close>; the row
  references \<open>users\<close> and, when a template is chosen, \<open>project_templates\<close>.
\<close>

definition upsert_user_settings :: "db \<Rightarrow> settings_row \<Rightarrow> db option" where
  "upsert_user_settings d r =
     (if \<not> user_exists d (us_user_id r)
         \<or> (case chosen_template r of None \<Rightarrow> False | Some t \<Rightarrow> t \<notin> set (project_templates d))
      then None
      else if us_user_id r \<in> set (map us_user_id (user_settings d))
      then Some (d\<lparr>user_settings :=
                    map (\<lambda>x. if us_user_id x = us_user_id r then r else x) (user_settings d)\<rparr>)
      else Some (d\<lparr>user_settings := user_settings d @ [r]\<rparr>))"

definition patch_user_settings :: "db \<Rightarrow> principal \<Rightarrow> string \<Rightarrow> jobject \<Rightarrow> response \<times> db" where
  "patch_user_settings d user user_id b =
     (if p_user_id user \<noteq> user_id
      then (forbidden ''Cannot update another user's settings'', d)
      else (case createUserSettingsInputSchema (spread ''user_id'' user_id b) of
              None \<Rightarrow> (internal_error ZodError, d)
            | Some v \<Rightarrow>
                (case upsert_user_settings d
                        \<lparr>us_user_id = cs_user_id v,
                         color_scheme = sql_param (cs_color_scheme v),
                         chosen_template = sql_param (cs_chosen_template v),
                         font_selection = sql_param (cs_font_selection v)\<rparr> of
                   None \<Rightarrow> (internal_error StoreError, d)
                 | Some d' \<Rightarrow> (reply 200 (Message ''Settings updated successfully''), d'))))"

subsection \<open>Projects\<close>

text \<open>
  \<^verbatim>\<open>project.images ? JSON.parse(project.images).images || [] : []\<close>. A row that
  comes back with \<open>images\<close> set carries an object, not text: \<^verbatim>\<open>JSON.parse\<close>
  turns it into the text \<^verbatim>\<open>[object Object]\<close> and throws a \<^verbatim>\<open>SyntaxError\<close>
  (\<open>None\<close>). With \<^verbatim>\<open>NULL\<close> the response carries the empty list.
\<close>

definition with_parsed_images :: "project_row \<Rightarrow> project_row option" where
  "with_parsed_images p =
     (case pr_images p of None \<Rightarrow> Some (p\<lparr>pr_images := Some []\<rparr>) | Some l \<Rightarrow> None)"

definition post_project ::
  "zod_lib \<Rightarrow> string \<Rightarrow> db \<Rightarrow> principal \<Rightarrow> string \<Rightarrow> jobject \<Rightarrow> response \<times> db" where
  "post_project z uuid d user user_id b =
     (if p_user_id user \<noteq> user_id
      then (forbidden ''Cannot create project for another user'', d)
      else (case createProjectInputSchema z (spread ''user_id'' user_id b) of
              None \<Rightarrow> (internal_error ZodError, d)
            | Some v \<Rightarrow>
                (let row = \<lparr>pr_project_id = uuid, pr_user_id = cp_user_id v, pr_title = cp_title v,
                            pr_description = sql_param (cp_description v),
                            pr_images = sql_param (cp_images v),
                            pr_project_url = sql_param (cp_project_url v)\<rparr>
                 in case insert_project d row of
                      None \<Rightarrow> (internal_error StoreError, d)
                    | Some d' \<Rightarrow>
                        (case with_parsed_images row of
                           None \<Rightarrow> (internal_error SyntaxError, d')
                         | Some project \<Rightarrow> (reply 201 (ProjectBody project), d')))))"

definition update_project_row :: "create_project_input \<Rightarrow> project_row \<Rightarrow> project_row" where
  "update_project_row v p =
     p\<lparr>pr_title := cp_title v,
       pr_description := sql_param (cp_description v),
       pr_images := sql_param (cp_images v),
       pr_project_url := sql_param (cp_project_url v)\<rparr>"

definition patch_project :: "zod_lib \<Rightarrow> db \<Rightarrow> principal \<Rightarrow> string \<Rightarrow> jobject \<Rightarrow> response \<times> db" where
  "patch_project z d user project_id b =
     (case filter (\<lambda>p. pr_project_id p = project_id) (projects d) of
        [] \<Rightarrow> (not_found ''Project not found'' ''PROJECT_NOT_FOUND'', d)
      | owner # _ \<Rightarrow>
          if pr_user_id owner \<noteq> p_user_id user
          then (forbidden ''Cannot update another user's project'', d)
          else (case createProjectInputSchema z b of
                  None \<Rightarrow> (internal_error ZodError, d)
                | Some v \<Rightarrow>
                    (let d' = d\<lparr>projects :=
                                 map (\<lambda>p. if pr_project_id p = project_id
                                           then update_project_row v p else p)
                                     (projects d)\<rparr>
                     in case with_parsed_images (update_project_row v owner) of
                          None \<Rightarrow> (internal_error SyntaxError, d')
                        | Some project \<Rightarrow> (reply 200 (ProjectBody project), d'))))"

definition delete_project_handler :: "db \<Rightarrow> principal \<Rightarrow> string \<Rightarrow> response \<times> db" where
  "delete_project_handler d user project_id =
     (case filter (\<lambda>p. pr_project_id p = project_id) (projects d) of
        [] \<Rightarrow> (not_found ''Project not found'' ''PROJECT_NOT_FOUND'', d)
      | owner # _ \<Rightarrow>
          if pr_user_id owner \<noteq> p_user_id user
          then (forbidden ''Cannot delete another user's project'', d)
          else (let d1 = delete_comments_of d project_id
                in case delete_project d1 project_id of
                     None \<Rightarrow> (internal_error StoreError, d1)
                   | Some d2 \<Rightarrow> (reply 204 Empty, d2)))"

subsection \<open>Skills\<close>

definition post_skill :: "string \<Rightarrow> db \<Rightarrow> principal \<Rightarrow> string \<Rightarrow> jobject \<Rightarrow> response \<times> db" where
  "post_skill uuid d user user_id b =
     (if p_user_id user \<noteq> user_id
      then (forbidden ''Cannot create skill for another user'', d)
      else (case createSkillInputSchema (spread ''user_id'' user_id b) of
              None \<Rightarrow> (internal_error ZodError, d)
            | Some v \<Rightarrow>
                (let row = \<lparr>sk_skill_id = uuid, sk_user_id = ck_user_id v,
                            skill_name = ck_skill_name v,
                            proficiency_level = ck_proficiency_level v\<rparr>
                 in case insert_skill d row of
                      None \<Rightarrow> (internal_error StoreError, d)
                    | Some d' \<Rightarrow> (reply 201 (SkillBody row), d'))))"

definition update_skill_row :: "create_skill_input \<Rightarrow> skill_row \<Rightarrow> skill_row" where
  "update_skill_row v r =
     r\<lparr>skill_name := ck_skill_name v, proficiency_level := ck_proficiency_level v\<rparr>"

definition patch_skill :: "db \<Rightarrow> principal \<Rightarrow> string \<Rightarrow> jobject \<Rightarrow> response \<times> db" where
  "patch_skill d user skill_id b =
     (case filter (\<lambda>r. sk_skill_id r = skill_id) (skills d) of
        [] \<Rightarrow> (not_found ''Skill not found'' ''SKILL_NOT_FOUND'', d)
      | owner # _ \<Rightarrow>
          if sk_user_id owner \<noteq> p_user_id user
          then (forbidden ''Cannot update another user's skill'', d)
          else (case createSkillInputSchema b of
                  None \<Rightarrow> (internal_error ZodError, d)
                | Some v \<Rightarrow>
                    if \<not> fits_integer (ck_proficiency_level v)
                    then (internal_error StoreError, d)
                    else (reply 200 (SkillBody (update_skill_row v owner)),
                          d\<lparr>skills :=
                              map (\<lambda>r. if sk_skill_id r = skill_id then update_skill_row v r else r)
                                  (skills d)\<rparr>)))"

definition delete_skill :: "db \<Rightarrow> principal \<Rightarrow> string \<Rightarrow> response \<times> db" where
  "delete_skill d user skill_id =
     (case filter (\<lambda>r. sk_skill_id r = skill_id) (skills d) of
        [] \<Rightarrow> (not_found ''Skill not found'' ''SKILL_NOT_FOUND'', d)
      | owner # _ \<Rightarrow>
          if sk_user_id owner \<noteq> p_user_id user
          then (forbidden ''Cannot delete another user's skill'', d)
          else (reply 204 Empty,
                d\<lparr>skills := filter (\<lambda>r. sk_skill_id r \<noteq> skill_id) (skills d)\<rparr>))"

subsection \<open>Experience timeline\<close>

definition post_experience ::
  "zod_lib \<Rightarrow> string \<Rightarrow> db \<Rightarrow> principal \<Rightarrow> string \<Rightarrow> jobject \<Rightarrow> response \<times> db" where
  "post_experience z uuid d user user_id b =
     (if p_user_id user \<noteq> user_id
      then (forbidden ''Cannot create experience for another user'', d)
      else (case createExperienceTimelineInputSchema z (spread ''user_id'' user_id b) of
              None \<Rightarrow> (internal_error ZodError, d)
            | Some v \<Rightarrow>
                (let row = \<lparr>ex_experience_id = uuid, ex_user_id = ce_user_id v,
                            ex_title = ce_title v,
                            ex_description = sql_param (ce_description v),
                            start_date = ce_start_date v,
                            end_date = sql_param (ce_end_date v)\<rparr>
                 in case insert_experience d row of
                      None \<Rightarrow> (internal_error StoreError, d)
                    | Some d' \<Rightarrow> (reply 201 (ExperienceBody row), d'))))"

definition update_experience_row ::
  "create_experience_timeline_input \<Rightarrow> experience_row \<Rightarrow> experience_row" where
  "update_experience_row v r =
     r\<lparr>ex_title := ce_title v,
       ex_description := sql_param (ce_description v),
       start_date := ce_start_date v,
       end_date := sql_param (ce_end_date v)\<rparr>"

definition patch_experience ::
  "zod_lib \<Rightarrow> db \<Rightarrow> principal \<Rightarrow> string \<Rightarrow> jobject \<Rightarrow> response \<times> db" where
  "patch_experience z d user experience_id b =
     (case filter (\<lambda>r. ex_experience_id r = experience_id) (experience_timeline d) of
        [] \<Rightarrow> (not_found ''Experience not found'' ''EXPERIENCE_NOT_FOUND'', d)
      | owner # _ \<Rightarrow>
          if ex_user_id owner \<noteq> p_user_id user
          then (forbidden ''Cannot update another user's experience'', d)
          else (case createExperienceTimelineInputSchema z b of
                  None \<Rightarrow> (internal_error ZodError, d)
                | Some v \<Rightarrow>
                    (reply 200 (ExperienceBody (update_experience_row v owner)),
                     d\<lparr>experience_timeline :=
                         map (\<lambda>r. if ex_experience_id r = experience_id
                                   then update_experience_row v r else r)
                             (experience_timeline d)\<rparr>)))"

definition delete_experience :: "db \<Rightarrow> principal \<Rightarrow> string \<Rightarrow> response \<times> db" where
  "delete_experience d user experience_id =
     (case filter (\<lambda>r. ex_experience_id r = experience_id) (experience_timeline d) of
        [] \<Rightarrow> (not_found ''Experience not found'' ''EXPERIENCE_NOT_FOUND'', d)
      | owner # _ \<Rightarrow>
          if ex_user_id owner \<noteq> p_user_id user
          then (forbidden ''Cannot delete another user's experience'', d)
          else (reply 204 Empty,
                d\<lparr>experience_timeline :=
                    filter (\<lambda>r. ex_experience_id r \<noteq> experience_id) (experience_timeline d)\<rparr>))"

subsection \<open>Testimonials\<close>

definition post_testimonial ::
  "string \<Rightarrow> db \<Rightarrow> principal \<Rightarrow> string \<Rightarrow> jobject \<Rightarrow> response \<times> db" where
  "post_testimonial uuid d user user_id b =
     (if p_user_id user \<noteq> user_id
      then (forbidden ''Cannot create testimonial for another user'', d)
      else (case createTestimonialInputSchema (spread ''user_id'' user_id b) of
              None \<Rightarrow> (internal_error ZodError, d)
            | Some v \<Rightarrow>
                (let row = \<lparr>te_testimonial_id = uuid, te_user_id = ct_user_id v,
                            client_name = ct_client_name v,
                            feedback = sql_param (ct_feedback v)\<rparr>
                 in case insert_testimonial d row of
                      None \<Rightarrow> (internal_error StoreError, d)
                    | Some d' \<Rightarrow> (reply 201 (TestimonialBody row), d'))))"

definition update_testimonial_row :: "create_testimonial_input \<Rightarrow> testimonial_row \<Rightarrow> testimonial_row" where
  "update_testimonial_row v r =
     r\<lparr>client_name := ct_client_name v, feedback := sql_param (ct_feedback v)\<rparr>"

definition patch_testimonial :: "db \<Rightarrow> principal \<Rightarrow> string \<Rightarrow> jobject \<Rightarrow> response \<times> db" where
  "patch_testimonial d user testimonial_id b =
     (case filter (\<lambda>r. te_testimonial_id r = testimonial_id) (testimonials d) of
        [] \<Rightarrow> (not_found ''Testimonial not found'' ''TESTIMONIAL_NOT_FOUND'', d)
      | owner # _ \<Rightarrow>
          if te_user_id owner \<noteq> p_user_id user
          then (forbidden ''Cannot update another user's testimonial'', d)
          else (case createTestimonialInputSchema b of
                  None \<Rightarrow> (internal_error ZodError, d)
                | Some v \<Rightarrow>
                    (reply 200 (TestimonialBody (update_testimonial_row v owner)),
                     d\<lparr>testimonials :=
                         map (\<lambda>r. if te_testimonial_id r = testimonial_id
                                   then update_testimonial_row v r else r)
                             (testimonials d)\<rparr>)))"

definition delete_testimonial :: "db \<Rightarrow> principal \<Rightarrow> string \<Rightarrow> response \<times> db" where
  "delete_testimonial d user testimonial_id =
     (case filter (\<lambda>r. te_testimonial_id r = testimonial_id) (testimonials d) of
        [] \<Rightarrow> (not_found ''Testimonial not found'' ''TESTIMONIAL_NOT_FOUND'', d)
      | owner # _ \<Rightarrow>
          if te_user_id owner \<noteq> p_user_id user
          then (forbidden ''Cannot delete another user's testimonial'', d)
          else (reply 204 Empty,
                d\<lparr>testimonials :=
                    filter (\<lambda>r. te_testimonial_id r \<noteq> testimonial_id) (testimonials d)\<rparr>))"

subsection \<open>Blog posts\<close>

definition post_blog_post ::
  "string \<Rightarrow> string \<Rightarrow> db \<Rightarrow> principal \<Rightarrow> string \<Rightarrow> jobject \<Rightarrow> response \<times> db" where
  "post_blog_post uuid now d user user_id b =
     (if p_user_id user \<noteq> user_id
      then (forbidden ''Cannot create blog post for another user'', d)
      else (case createBlogPostInputSchema (spread ''user_id'' user_id b) of
              None \<Rightarrow> (internal_error ZodError, d)
            | Some v \<Rightarrow>
                (let row = \<lparr>bp_post_id = uuid, bp_user_id = cb_user_id v, bp_title = cb_title v,
                            bp_content = sql_param (cb_content v), bp_created_at = now\<rparr>
                 in case insert_blog_post d row of
                      None \<Rightarrow> (internal_error StoreError, d)
                    | Some d' \<Rightarrow> (reply 201 (BlogPostBody row), d'))))"

definition update_blog_post_row :: "create_blog_post_input \<Rightarrow> blog_post_row \<Rightarrow> blog_post_row" where
  "update_blog_post_row v r = r\<lparr>bp_title := cb_title v, bp_content := sql_param (cb_content v)\<rparr>"

definition patch_blog_post :: "db \<Rightarrow> principal \<Rightarrow> string \<Rightarrow> jobject \<Rightarrow> response \<times> db" where
  "patch_blog_post d user post_id b =
     (case filter (\<lambda>r. bp_post_id r = post_id) (blog_posts d) of
        [] \<Rightarrow> (not_found ''Blog post not found'' ''POST_NOT_FOUND'', d)
      | owner # _ \<Rightarrow>
          if bp_user_id owner \<noteq> p_user_id user
          then (forbidden ''Cannot update another user's blog post'', d)
          else (case createBlogPostInputSchema b of
                  None \<Rightarrow> (internal_error ZodError, d)
                | Some v \<Rightarrow>
                    (reply 200 (BlogPostBody (update_blog_post_row v owner)),
                     d\<lparr>blog_posts :=
                         map (\<lambda>r. if bp_post_id r = post_id then update_blog_post_row v r else r)
                             (blog_posts d)\<rparr>)))"

definition delete_blog_post :: "db \<Rightarrow> principal \<Rightarrow> string \<Rightarrow> response \<times> db" where
  "delete_blog_post d user post_id =
     (case filter (\<lambda>r. bp_post_id r = post_id) (blog_posts d) of
        [] \<Rightarrow> (not_found ''Blog post not found'' ''POST_NOT_FOUND'', d)
      | owner # _ \<Rightarrow>
          if bp_user_id owner \<noteq> p_user_id user
          then (forbidden ''Cannot delete another user's blog post'', d)
          else (reply 204 Empty,
                d\<lparr>blog_posts := filter (\<lambda>r. bp_post_id r \<noteq> post_id) (blog_posts d)\<rparr>))"

subsection \<open>Comments\<close>

definition post_comment :: "string \<Rightarrow> string \<Rightarrow> db \<Rightarrow> string \<Rightarrow> jobject \<Rightarrow> response \<times> db" where
  "post_comment uuid now d project_id b =
     (if filter (\<lambda>p. pr_project_id p = project_id) (projects d) = []
      then (not_found ''Project not found'' ''PROJECT_NOT_FOUND'', d)
      else (case createCommentInputSchema (spread ''project_id'' project_id b) of
              None \<Rightarrow> (internal_error ZodError, d)
            | Some v \<Rightarrow>
                (let row = \<lparr>co_comment_id = uuid, co_project_id = cc_project_id v,
                            co_user_name = sql_param (cc_user_name v),
                            co_content = cc_content v, co_created_at = now\<rparr>
                 in case insert_comment d row of
                      None \<Rightarrow> (internal_error StoreError, d)
                    | Some d' \<Rightarrow> (reply 201 (CommentBody row), d'))))"

subsection \<open>Analytics\<close>

definition initial_popular_projects :: jobject where
  "initial_popular_projects = [(''popular'', JArr [])]"

definition initial_interaction_data :: jobject where
  "initial_interaction_data = [(''views'', JNum 0), (''comments'', JNum 0), (''contacts'', JNum 0)]"

text \<open>
  The two lines \<^verbatim>\<open>x = x ? JSON.parse(x) : default\<close> before the response is
  sent, for \<open>popular_projects\<close> and then \<open>interaction_data\<close>. A column that is
  set comes back as an object, and \<^verbatim>\<open>JSON.parse\<close> of an object throws a
  \<^verbatim>\<open>SyntaxError\<close> (\<open>None\<close>); only \<^verbatim>\<open>NULL\<close> takes the default.
\<close>

definition JSON_parse_or :: "jobject \<Rightarrow> jobject option \<Rightarrow> jobject option" where
  "JSON_parse_or fallback column = (case column of None \<Rightarrow> Some fallback | Some x \<Rightarrow> None)"

definition with_parsed_analytics :: "analytics_row \<Rightarrow> analytics_row option" where
  "with_parsed_analytics a =
     (case JSON_parse_or initial_popular_projects (popular_projects a) of
        None \<Rightarrow> None
      | Some p \<Rightarrow>
          (case JSON_parse_or initial_interaction_data (interaction_data a) of
             None \<Rightarrow> None
           | Some i \<Rightarrow> Some (a\<lparr>popular_projects := Some p, interaction_data := Some i\<rparr>)))"

definition select_analytics :: "db \<Rightarrow> string \<Rightarrow> analytics_row list" where
  "select_analytics d user_id = filter (\<lambda>a. an_user_id a = user_id) (analytics d)"

definition send_analytics :: "db \<Rightarrow> analytics_row list \<Rightarrow> response \<times> db" where
  "send_analytics d rows =
     (case rows of
        [] \<Rightarrow> (internal_error TypeError, d)
      | a # _ \<Rightarrow>
          (case with_parsed_analytics a of
             None \<Rightarrow> (internal_error SyntaxError, d)
           | Some parsed \<Rightarrow> (reply 200 (AnalyticsBody parsed), d)))"

definition get_analytics_handler :: "string \<Rightarrow> db \<Rightarrow> principal \<Rightarrow> string \<Rightarrow> response \<times> db" where
  "get_analytics_handler uuid d user user_id =
     (if p_user_id user \<noteq> user_id
      then (forbidden ''Cannot view another user's analytics'', d)
      else if select_analytics d user_id = []
      then (case insert_analytics d
                   \<lparr>an_analytics_id = uuid, an_user_id = user_id, visit_count = 0,
                    popular_projects = Some initial_popular_projects,
                    interaction_data = Some initial_interaction_data\<rparr> of
              None \<Rightarrow> (internal_error StoreError, d)
            | Some d' \<Rightarrow> send_analytics d' (select_analytics d' user_id))
      else send_analytics d (select_analytics d user_id))"

definition get_analytics ::
  "jwt_lib \<Rightarrow> string \<Rightarrow> db \<Rightarrow> string option \<Rightarrow> string \<Rightarrow> response \<times> db" where
  "get_analytics j uuid d authHeader user_id =
     protected j d authHeader (\<lambda>user. get_analytics_handler uuid d user user_id)"

subsection \<open>Registration and password reset\<close>

text \<open>
  \<^verbatim>\<open>toLowerCase()\<close> and \<^verbatim>\<open>trim()\<close> on the ASCII range: the letters A to Z, and
  the white space characters tab, line feed, vertical tab, form feed, carriage
  return and space.
\<close>

definition toLowerCase :: "string \<Rightarrow> string" where
  "toLowerCase s =
     map (\<lambda>c. case map_of (zip ''ABCDEFGHIJKLMNOPQRSTUVWXYZ'' ''abcdefghijklmnopqrstuvwxyz'') c of
                 None \<Rightarrow> c | Some l \<Rightarrow> l) s"

definition is_space :: "char \<Rightarrow> bool" where
  "is_space c = (c \<in> set [CHR '' '', CHR 0x09, CHR 0x0A, CHR 0x0B, CHR 0x0C, CHR 0x0D])"

definition trim :: "string \<Rightarrow> string" where
  "trim s = rev (dropWhile is_space (rev (dropWhile is_space s)))"

text \<open>\<^verbatim>\<open>name || null\<close>: an absent, null or empty name is stored as \<^verbatim>\<open>NULL\<close>.\<close>

fun or_null :: "string opt \<Rightarrow> string option" where
  "or_null (Val s) = (if s = [] then None else Some s)"
| "or_null _ = None"

definition register ::
  "zod_lib \<Rightarrow> jwt_lib \<Rightarrow> string \<Rightarrow> string \<Rightarrow> db \<Rightarrow> jobject \<Rightarrow> response \<times> db" where
  "register z j uuid now d b =
     (case createUserInputSchema z b of
        None \<Rightarrow> (internal_error ZodError, d)
      | Some v \<Rightarrow>
          if filter (\<lambda>u. u_email u = cu_email v) (users d) \<noteq> []
          then (reply 400 (createErrorResponse ''User with this email already exists'' None
                             ''USER_ALREADY_EXISTS''), d)
          else (let row = \<lparr>u_user_id = uuid, u_email = trim (toLowerCase (cu_email v)),
                           u_password_hash = cu_password_hash v, u_name = or_null (cu_name v),
                           u_created_at = now\<rparr>
                in case insert_user d row of
                     None \<Rightarrow> (internal_error StoreError, d)
                   | Some d1 \<Rightarrow>
                       (case insert_user_profile d1
                               \<lparr>up_user_id = uuid, profile_picture_url = None,
                                cover_image_url = None, bio = None, contact_email = None,
                                phone_number = None, social_media_links = None\<rparr> of
                          None \<Rightarrow> (internal_error StoreError, d1)
                        | Some d2 \<Rightarrow>
                            (reply 200 (AuthBody (to_principal row)
                                          (jwt_sign j (u_user_id row) (u_email row))), d2))))"

text \<open>\<^verbatim>\<open>!email\<close> for a value of the body.\<close>

fun falsy :: "json \<Rightarrow> bool" where
  "falsy JNull = True"
| "falsy (JBool b) = (\<not> b)"
| "falsy (JNum n) = (n = 0)"
| "falsy (JStr s) = (s = [])"
| "falsy _ = False"

definition reset_acknowledgment :: body where
  "reset_acknowledgment =
     Message ''If an account with that email exists, a password reset link has been sent.''"

definition password_reset :: "db \<Rightarrow> jobject \<Rightarrow> response" where
  "password_reset d b =
     (case map_of b ''email'' of
        None \<Rightarrow> reply 400 (createErrorResponse ''Email is required'' None ''MISSING_REQUIRED_FIELDS'')
      | Some email \<Rightarrow>
          if falsy email
          then reply 400 (createErrorResponse ''Email is required'' None ''MISSING_REQUIRED_FIELDS'')
          else (case email of
                  JStr e \<Rightarrow>
                    if filter (\<lambda>u. u_email u = trim (toLowerCase e)) (users d) = []
                    then reply 200 reset_acknowledgment
                    else reply 200 reset_acknowledgment
                | _ \<Rightarrow> internal_error TypeError))"

subsection \<open>Contact form\<close>

text \<open>
  \<^verbatim>\<open>UPDATE analytics SET interaction_data = ... WHERE user_id = $1\<close>. The
  \<^verbatim>\<open>SET\<close> expression is typed and evaluated by the store, not by the server, so
  the statement takes the store's treatment of it as an argument: \<open>None\<close> when
  the store rejects the statement as it stands (whatever rows match), otherwise
  the function from a row's old \<open>interaction_data\<close> to its new value, \<open>None\<close>
  when the store raises on that row. The statement changes all matching rows or
  none.
\<close>

type_synonym set_expr = "(jobject option \<Rightarrow> jobject option option) option"

text \<open>
  What the store of the deployment does with the expression
  \<^verbatim>\<open>COALESCE(interaction_data::jsonb, '{}'::jsonb) || '{"contacts": ' || (... + 1) || '}'\<close>:
  the left operand of the first \<^verbatim>\<open>||\<close> is \<^verbatim>\<open>jsonb\<close>, so the untyped literal on
  its right is read as \<^verbatim>\<open>jsonb\<close> too, and \<^verbatim>\<open>{"contacts": \<close> is not a JSON text.
  The statement is rejected when it is analysed, before any row is looked at.
\<close>

definition postgres_set_expr :: set_expr where
  "postgres_set_expr = None"

definition increment_contacts :: "set_expr \<Rightarrow> db \<Rightarrow> string \<Rightarrow> db option" where
  "increment_contacts expr d user_id =
     (case expr of
        None \<Rightarrow> None
      | Some f \<Rightarrow>
          if list_ex (\<lambda>a. an_user_id a = user_id \<and> f (interaction_data a) = None) (analytics d)
          then None
          else Some (d\<lparr>analytics :=
                        map (\<lambda>a. if an_user_id a = user_id
                                  then (case f (interaction_data a) of
                                          None \<Rightarrow> a
                                        | Some v \<Rightarrow> a\<lparr>interaction_data := v\<rparr>)
                                  else a)
                            (analytics d)\<rparr>))"

definition contact ::
  "zod_lib \<Rightarrow> set_expr \<Rightarrow> string \<Rightarrow> string \<Rightarrow> db \<Rightarrow> string \<Rightarrow> jobject
     \<Rightarrow> response \<times> db" where
  "contact z expr uuid now d user_id b =
     (if filter (\<lambda>u. u_user_id u = user_id) (users d) = []
      then (not_found ''User not found'' ''USER_NOT_FOUND'', d)
      else (case createVisitorMessageInputSchema z (spread ''user_id'' user_id b) of
              None \<Rightarrow> (internal_error ZodError, d)
            | Some v \<Rightarrow>
                (case insert_visitor_message d
                        \<lparr>vm_message_id = uuid, vm_user_id = cv_user_id v,
                         visitor_email = sql_param (cv_visitor_email v),
                         visitor_message = cv_visitor_message v, sent_at = now\<rparr> of
                   None \<Rightarrow> (internal_error StoreError, d)
                 | Some d1 \<Rightarrow>
                     (case increment_contacts expr d1 user_id of
                        None \<Rightarrow> (internal_error StoreError, d1)
                      | Some d2 \<Rightarrow> (reply 200 (Message ''Message sent successfully''), d2)))))"

subsection \<open>File upload\<close>

text \<open>
  The file part of a multipart request as the upload middleware sees it, and
  the upload directories as a list of the files written so far.
\<close>

record upload_file =
  originalname :: string
  mimetype :: string
  file_size :: nat

record stored_file =
  directory :: string
  filename :: string
  bytes :: nat

text \<open>\<^verbatim>\<open>req.file\<close>, as the upload middleware leaves it for the handler.\<close>

record req_file =
  rf_filename :: string
  rf_originalname :: string
  rf_size :: nat

fun starts_with :: "string \<Rightarrow> string \<Rightarrow> bool" where
  "starts_with [] s = True"
| "starts_with (p # ps) [] = False"
| "starts_with (p # ps) (c # cs) = (p = c \<and> starts_with ps cs)"

fun contains :: "string \<Rightarrow> string \<Rightarrow> bool" where
  "contains p [] = (p = [])"
| "contains p (c # cs) = (starts_with p (c # cs) \<or> contains p cs)"

text \<open>\<^verbatim>\<open>/jpeg|jpg|png|gif|webp/.test(s)\<close>: the pattern is not anchored.\<close>

definition allowedTypes_test :: "string \<Rightarrow> bool" where
  "allowedTypes_test s = list_ex (\<lambda>p. contains p s) [''jpeg'', ''jpg'', ''png'', ''gif'', ''webp'']"

text \<open>
  \<^verbatim>\<open>path.extname\<close> (POSIX): the part of the last path component from its last
  dot on; empty when there is no dot, when the component starts with its only
  dot, and for \<^verbatim>\<open>..\<close>.
\<close>

definition basename :: "string \<Rightarrow> string" where
  "basename p =
     rev (takeWhile (\<lambda>c. c \<noteq> CHR ''/'') (dropWhile (\<lambda>c. c = CHR ''/'') (rev p)))"

definition extname :: "string \<Rightarrow> string" where
  "extname p =
     (let b = basename p;
          ext = CHR ''.'' # rev (takeWhile (\<lambda>c. c \<noteq> CHR ''.'') (rev b))
      in if CHR ''.'' \<notin> set b \<or> length b = length ext \<or> b = ''..'' then [] else ext)"

definition fileFilter :: "upload_file \<Rightarrow> bool" where
  "fileFilter file =
     (let extname_ok = allowedTypes_test (toLowerCase (extname (originalname file)));
          mimetype_ok = allowedTypes_test (mimetype file)
      in mimetype_ok \<and> extname_ok)"

definition destination :: "string \<Rightarrow> string" where
  "destination uploadType =
     (if uploadType = ''profile'' then ''storage/uploads/profiles''
      else if uploadType = ''project'' then ''storage/uploads/projects''
      else ''storage/uploads'')"

text \<open>
  The generated file name. \<open>now\<close> is the decimal text of \<^verbatim>\<open>Date.now()\<close> and
  \<open>rnd\<close> that of \<^verbatim>\<open>Math.round(Math.random() * 1E9)\<close>.
\<close>

definition generated_filename :: "string \<Rightarrow> string \<Rightarrow> upload_file \<Rightarrow> string" where
  "generated_filename now rnd file = now @ ''-'' @ rnd @ extname (originalname file)"

definition fileSize_limit :: nat where
  "fileSize_limit = 5 * 1024 * 1024"

text \<open>
  \<^verbatim>\<open>upload.single('file')\<close>, from the upload library's documented behaviour:
  the filter runs before anything is written; a refused file and a file over
  the size limit both end with an error passed on (\<open>Inl\<close>), and no file stays
  on disk. \<open>Inr None\<close> is a request without a file.
\<close>

definition upload_single ::
  "string \<Rightarrow> string \<Rightarrow> stored_file list \<Rightarrow> string \<Rightarrow> upload_file option
     \<Rightarrow> unit + (req_file option \<times> stored_file list)" where
  "upload_single now rnd fs uploadType part =
     (case part of
        None \<Rightarrow> Inr (None, fs)
      | Some file \<Rightarrow>
          if \<not> fileFilter file then Inl ()
          else if file_size file > fileSize_limit then Inl ()
          else Inr (Some \<lparr>rf_filename = generated_filename now rnd file,
                          rf_originalname = originalname file, rf_size = file_size file\<rparr>,
                    fs @ [\<lparr>directory = destination uploadType,
                           filename = generated_filename now rnd file, bytes = file_size file\<rparr>]))"

text \<open>
  The route: authentication, the upload middleware, the handler. The
  application registers no error middleware, so an error passed on by the upload
  middleware is answered by the framework's default handler with status 500.
\<close>

definition post_upload ::
  "jwt_lib \<Rightarrow> string \<Rightarrow> string \<Rightarrow> db \<Rightarrow> stored_file list \<Rightarrow> string option \<Rightarrow> string
     \<Rightarrow> upload_file option \<Rightarrow> response \<times> stored_file list" where
  "post_upload j now rnd d fs authHeader uploadType part =
     (case authenticateToken j d authHeader of
        Inl r \<Rightarrow> (r, fs)
      | Inr user \<Rightarrow>
          (case upload_single now rnd fs uploadType part of
             Inl _ \<Rightarrow> (reply 500 DefaultErrorPage, fs)
           | Inr (None, fs') \<Rightarrow>
               (reply 400 (createErrorResponse ''No file uploaded'' None ''NO_FILE_UPLOADED''), fs')
           | Inr (Some file, fs') \<Rightarrow>
               (reply 200 (UploadBody (''/uploads/'' @ uploadType @ ''/'' @ rf_filename file)
                             (rf_filename file) (rf_originalname file) (rf_size file)), fs')))"

section \<open>The seeded store\<close>

text \<open>The rows that the schema script inserts, used as the concrete store in examples.\<close>

definition seed_users :: "user_row list" where
  "seed_users =
     [\<lparr>u_user_id = ''user1'', u_email = ''john.doe@example.com'', u_password_hash = ''password123'',
       u_name = Some ''John Doe'', u_created_at = ''2023-10-05''\<rparr>,
      \<lparr>u_user_id = ''user2'', u_email = ''jane.smith@example.com'', u_password_hash = ''admin123'',
       u_name = Some ''Jane Smith'', u_created_at = ''2023-10-05''\<rparr>]"

definition seed_user_profiles :: "profile_row list" where
  "seed_user_profiles =
     [\<lparr>up_user_id = ''user1'', profile_picture_url = Some ''https://picsum.photos/seed/user1/200'',
       cover_image_url = Some ''https://picsum.photos/seed/user1cover/800/300'',
       bio = Some ''This is John Doe's bio.'', contact_email = Some ''john.contact@example.com'',
       phone_number = Some ''1234567890'',
       social_media_links = Some [(''twitter'', ''https://twitter.com/johndoe'')]\<rparr>,
      \<lparr>up_user_id = ''user2'', profile_picture_url = Some ''https://picsum.photos/seed/user2/200'',
       cover_image_url = Some ''https://picsum.photos/seed/user2cover/800/300'',
       bio = Some ''This is Jane Smith's bio.'', contact_email = Some ''jane.contact@example.com'',
       phone_number = Some ''0987654321'',
       social_media_links = Some [(''twitter'', ''https://twitter.com/janesmith'')]\<rparr>]"

definition seed_user_settings :: "settings_row list" where
  "seed_user_settings =
     [\<lparr>us_user_id = ''user1'', color_scheme = Some [(''background'', ''dark'')],
       chosen_template = Some ''template1'', font_selection = Some ''Arial''\<rparr>,
      \<lparr>us_user_id = ''user2'', color_scheme = Some [(''background'', ''light'')],
       chosen_template = Some ''template2'', font_selection = Some ''Helvetica''\<rparr>]"

definition seed_projects :: "project_row list" where
  "seed_projects =
     [\<lparr>pr_project_id = ''project1'', pr_user_id = ''user1'', pr_title = ''Amazing Project'',
       pr_description = Some ''This is a description of an amazing project.'',
       pr_images = Some [''https://picsum.photos/seed/project1/200''],
       pr_project_url = Some ''https://example.com/amazing-project''\<rparr>,
      \<lparr>pr_project_id = ''project2'', pr_user_id = ''user2'', pr_title = ''Fantastic Creation'',
       pr_description = Some ''This is a description of a fantastic creation.'',
       pr_images = Some [''https://picsum.photos/seed/project2/200''],
       pr_project_url = Some ''https://example.com/fantastic-creation''\<rparr>]"

definition seed_skills :: "skill_row list" where
  "seed_skills =
     [\<lparr>sk_skill_id = ''skill1'', sk_user_id = ''user1'', skill_name = ''Python'',
       proficiency_level = Some 8\<rparr>,
      \<lparr>sk_skill_id = ''skill2'', sk_user_id = ''user1'', skill_name = ''JavaScript'',
       proficiency_level = Some 7\<rparr>]"

definition seed_experience_timeline :: "experience_row list" where
  "seed_experience_timeline =
     [\<lparr>ex_experience_id = ''exp1'', ex_user_id = ''user1'', ex_title = ''Software Engineer'',
       ex_description = Some ''Worked on developing software solutions.'',
       start_date = ''2020-01-01'', end_date = Some ''2022-12-31''\<rparr>,
      \<lparr>ex_experience_id = ''exp2'', ex_user_id = ''user2'', ex_title = ''Web Developer'',
       ex_description = Some ''Created and maintained websites.'',
       start_date = ''2019-05-01'', end_date = Some ''2021-08-31''\<rparr>]"

definition seed_testimonials :: "testimonial_row list" where
  "seed_testimonials =
     [\<lparr>te_testimonial_id = ''test1'', te_user_id = ''user1'', client_name = ''Acme Corp'',
       feedback = Some ''John did a fantastic job on our project!''\<rparr>,
      \<lparr>te_testimonial_id = ''test2'', te_user_id = ''user2'', client_name = ''Coding Inc'',
       feedback = Some ''Jane is a great developer and very professional.''\<rparr>]"

definition seed_blog_posts :: "blog_post_row list" where
  "seed_blog_posts =
     [\<lparr>bp_post_id = ''post1'', bp_user_id = ''user1'', bp_title = ''How to Code'',
       bp_content = Some ''This blog post explains the basics of coding.'',
       bp_created_at = ''2023-10-05''\<rparr>,
      \<lparr>bp_post_id = ''post2'', bp_user_id = ''user2'', bp_title = ''A Guide to Web Development'',
       bp_content = Some ''This post covers essential tips for web development.'',
       bp_created_at = ''2023-10-05''\<rparr>]"

definition seed_comments :: "comment_row list" where
  "seed_comments =
     [\<lparr>co_comment_id = ''comment1'', co_project_id = ''project1'', co_user_name = Some ''Alice'',
       co_content = ''Great project!'', co_created_at = ''2023-10-05''\<rparr>,
      \<lparr>co_comment_id = ''comment2'', co_project_id = ''project2'', co_user_name = Some ''Bob'',
       co_content = ''Really impressive work.'', co_created_at = ''2023-10-05''\<rparr>]"

definition seed_visitor_messages :: "visitor_message_row list" where
  "seed_visitor_messages =
     [\<lparr>vm_message_id = ''message1'', vm_user_id = ''user1'', visitor_email = Some ''alice@example.com'',
       visitor_message = ''Inquiring about your services.'', sent_at = ''2023-10-05''\<rparr>,
      \<lparr>vm_message_id = ''message2'', vm_user_id = ''user2'', visitor_email = Some ''bob@example.com'',
       visitor_message = ''Interested in collaborating with you.'', sent_at = ''2023-10-05''\<rparr>]"

definition seed_analytics :: "analytics_row list" where
  "seed_analytics =
     [\<lparr>an_analytics_id = ''analytics1'', an_user_id = ''user1'', visit_count = 100,
       popular_projects = Some [(''popular'', JArr [JStr ''project1''])],
       interaction_data = Some [(''clicks'', JNum 50), (''likes'', JNum 30)]\<rparr>,
      \<lparr>an_analytics_id = ''analytics2'', an_user_id = ''user2'', visit_count = 200,
       popular_projects = Some [(''popular'', JArr [JStr ''project2''])],
       interaction_data = Some [(''clicks'', JNum 70), (''shares'', JNum 20)]\<rparr>]"

definition seed_db :: db where
  "seed_db =
     \<lparr>users = seed_users, user_profiles = seed_user_profiles,
      project_templates = [''template1'', ''template2''], user_settings = seed_user_settings,
      projects = seed_projects, skills = seed_skills,
      experience_timeline = seed_experience_timeline, testimonials = seed_testimonials,
      blog_posts = seed_blog_posts, comments = seed_comments,
      visitor_messages = seed_visitor_messages, analytics = seed_analytics\<rparr>"

definition john :: principal where
  "john = \<lparr>p_user_id = ''user1'', p_email = ''john.doe@example.com'', p_name = Some ''John Doe'',
           p_created_at = ''2023-10-05''\<rparr>"

definition jane :: principal where
  "jane = \<lparr>p_user_id = ''user2'', p_email = ''jane.smith@example.com'', p_name = Some ''Jane Smith'',
           p_created_at = ''2023-10-05''\<rparr>"

text \<open>
  Stand-ins for the libraries in the examples: an e-mail has an \<^verbatim>\<open>@\<close>, a URL
  starts with \<^verbatim>\<open>http\<close>, a date is any string; a token is the user id it was
  signed for.
\<close>

definition example_zod :: zod_lib where
  "example_zod = \<lparr>is_email = contains ''@'', is_url = starts_with ''http'',
                  coerce_date = z_string\<rparr>"

definition example_jwt :: jwt_lib where
  "example_jwt = \<lparr>jwt_verify = (\<lambda>t. if t = ''bad'' then None else Some (Some t)),
                  jwt_sign = (\<lambda>uid email. uid)\<rparr>"

section \<open>Reading a response\<close>

fun error_code :: "body \<Rightarrow> string option" where
  "error_code (ErrorResponse message details code) = Some code"
| "error_code _ = None"

text \<open>
  \<open>refused out s c d\<close>: the handler answered with status \<open>s\<close> and an error
  envelope whose \<^verbatim>\<open>error_code\<close> is \<open>c\<close>, and left the store \<open>d\<close> as it was.
\<close>

definition refused :: "response \<times> db \<Rightarrow> nat \<Rightarrow> string \<Rightarrow> db \<Rightarrow> bool" where
  "refused out s c d =
     (status (fst out) = s \<and> error_code (body (fst out)) = Some c \<and> snd out = d)"


text \<open>The same for the authentication middleware, which either answers or binds a principal.\<close>

definition rejected :: "response + principal \<Rightarrow> nat \<Rightarrow> string \<Rightarrow> bool" where
  "rejected out s c =
     (case out of Inl r \<Rightarrow> status r = s \<and> error_code (body r) = Some c | Inr user \<Rightarrow> False)"

text \<open>
  The file name, the original name and the size that the response to an upload
  carries.
\<close>

fun upload_fields :: "body \<Rightarrow> (string \<times> string \<times> nat) option" where
  "upload_fields (UploadBody url name original n) = Some (name, original, n)"
| "upload_fields _ = None"

text \<open>
  Two analytics rows that agree on every column except, possibly,
  \<open>interaction_data\<close>.
\<close>

definition same_but_interaction_data :: "analytics_row \<Rightarrow> analytics_row \<Rightarrow> bool" where
  "same_but_interaction_data a a' =
     (an_analytics_id a' = an_analytics_id a \<and> an_user_id a' = an_user_id a
      \<and> visit_count a' = visit_count a \<and> popular_projects a' = popular_projects a)"

section \<open>Refusals leave the store alone\<close>

lemma refused_not_found: "refused (not_found m c, d) 404 c d"
  by (simp add: refused_def not_found_def reply_def createErrorResponse_def)

lemma refused_forbidden: "refused (forbidden m, d) 403 ''FORBIDDEN'' d"
  by (simp add: refused_def forbidden_def reply_def createErrorResponse_def)

lemma find_filter: "find P xs = Some x \<Longrightarrow> \<exists>ys. filter P xs = x # ys"
  by (induction xs) (auto split: if_splits)

lemma patch_project_absent:
  "filter (\<lambda>r. pr_project_id r = project_id) (projects d) = [] \<Longrightarrow>
   refused (patch_project z d user project_id b) 404 ''PROJECT_NOT_FOUND'' d"
  by (simp add: patch_project_def refused_not_found)

lemma patch_project_not_owner:
  assumes "find (\<lambda>r. pr_project_id r = project_id) (projects d) = Some project"
    and "pr_user_id project \<noteq> p_user_id user"
  shows "refused (patch_project z d user project_id b) 403 ''FORBIDDEN'' d"
proof -
  obtain rest where "filter (\<lambda>r. pr_project_id r = project_id) (projects d) = project # rest"
    using find_filter [OF assms(1)] by blast
  with assms(2) show ?thesis
    by (simp add: patch_project_def refused_forbidden)
qed

lemma delete_project_handler_absent:
  "filter (\<lambda>r. pr_project_id r = project_id) (projects d) = [] \<Longrightarrow>
   refused (delete_project_handler d user project_id) 404 ''PROJECT_NOT_FOUND'' d"
  by (simp add: delete_project_handler_def refused_not_found)

lemma delete_project_handler_not_owner:
  assumes "find (\<lambda>r. pr_project_id r = project_id) (projects d) = Some project"
    and "pr_user_id project \<noteq> p_user_id user"
  shows "refused (delete_project_handler d user project_id) 403 ''FORBIDDEN'' d"
proof -
  obtain rest where "filter (\<lambda>r. pr_project_id r = project_id) (projects d) = project # rest"
    using find_filter [OF assms(1)] by blast
  with assms(2) show ?thesis
    by (simp add: delete_project_handler_def refused_forbidden)
qed

lemma patch_skill_absent:
  "filter (\<lambda>r. sk_skill_id r = skill_id) (skills d) = [] \<Longrightarrow>
   refused (patch_skill d user skill_id b) 404 ''SKILL_NOT_FOUND'' d"
  by (simp add: patch_skill_def refused_not_found)

lemma patch_skill_not_owner:
  assumes "find (\<lambda>r. sk_skill_id r = skill_id) (skills d) = Some skill"
    and "sk_user_id skill \<noteq> p_user_id user"
  shows "refused (patch_skill d user skill_id b) 403 ''FORBIDDEN'' d"
proof -
  obtain rest where "filter (\<lambda>r. sk_skill_id r = skill_id) (skills d) = skill # rest"
    using find_filter [OF assms(1)] by blast
  with assms(2) show ?thesis
    by (simp add: patch_skill_def refused_forbidden)
qed

lemma delete_skill_absent:
  "filter (\<lambda>r. sk_skill_id r = skill_id) (skills d) = [] \<Longrightarrow>
   refused (delete_skill d user skill_id) 404 ''SKILL_NOT_FOUND'' d"
  by (simp add: delete_skill_def refused_not_found)

lemma delete_skill_not_owner:
  assumes "find (\<lambda>r. sk_skill_id r = skill_id) (skills d) = Some skill"
    and "sk_user_id skill \<noteq> p_user_id user"
  shows "refused (delete_skill d user skill_id) 403 ''FORBIDDEN'' d"
proof -
  obtain rest where "filter (\<lambda>r. sk_skill_id r = skill_id) (skills d) = skill # rest"
    using find_filter [OF assms(1)] by blast
  with assms(2) show ?thesis
    by (simp add: delete_skill_def refused_forbidden)
qed

lemma patch_experience_absent:
  "filter (\<lambda>r. ex_experience_id r = experience_id) (experience_timeline d) = [] \<Longrightarrow>
   refused (patch_experience z d user experience_id b) 404 ''EXPERIENCE_NOT_FOUND'' d"
  by (simp add: patch_experience_def refused_not_found)

lemma patch_experience_not_owner:
  assumes "find (\<lambda>r. ex_experience_id r = experience_id) (experience_timeline d) = Some experience"
    and "ex_user_id experience \<noteq> p_user_id user"
  shows "refused (patch_experience z d user experience_id b) 403 ''FORBIDDEN'' d"
proof -
  obtain rest where "filter (\<lambda>r. ex_experience_id r = experience_id) (experience_timeline d) = experience # rest"
    using find_filter [OF assms(1)] by blast
  with assms(2) show ?thesis
    by (simp add: patch_experience_def refused_forbidden)
qed

lemma delete_experience_absent:
  "filter (\<lambda>r. ex_experience_id r = experience_id) (experience_timeline d) = [] \<Longrightarrow>
   refused (delete_experience d user experience_id) 404 ''EXPERIENCE_NOT_FOUND'' d"
  by (simp add: delete_experience_def refused_not_found)

lemma delete_experience_not_owner:
  assumes "find (\<lambda>r. ex_experience_id r = experience_id) (experience_timeline d) = Some experience"
    and "ex_user_id experience \<noteq> p_user_id user"
  shows "refused (delete_experience d user experience_id) 403 ''FORBIDDEN'' d"
proof -
  obtain rest where "filter (\<lambda>r. ex_experience_id r = experience_id) (experience_timeline d) = experience # rest"
    using find_filter [OF assms(1)] by blast
  with assms(2) show ?thesis
    by (simp add: delete_experience_def refused_forbidden)
qed

lemma patch_testimonial_absent:
  "filter (\<lambda>r. te_testimonial_id r = testimonial_id) (testimonials d) = [] \<Longrightarrow>
   refused (patch_testimonial d user testimonial_id b) 404 ''TESTIMONIAL_NOT_FOUND'' d"
  by (simp add: patch_testimonial_def refused_not_found)

lemma patch_testimonial_not_owner:
  assumes "find (\<lambda>r. te_testimonial_id r = testimonial_id) (testimonials d) = Some testimonial"
    and "te_user_id testimonial \<noteq> p_user_id user"
  shows "refused (patch_testimonial d user testimonial_id b) 403 ''FORBIDDEN'' d"
proof -
  obtain rest where "filter (\<lambda>r. te_testimonial_id r = testimonial_id) (testimonials d) = testimonial # rest"
    using find_filter [OF assms(1)] by blast
  with assms(2) show ?thesis
    by (simp add: patch_testimonial_def refused_forbidden)
qed

lemma delete_testimonial_absent:
  "filter (\<lambda>r. te_testimonial_id r = testimonial_id) (testimonials d) = [] \<Longrightarrow>
   refused (delete_testimonial d user testimonial_id) 404 ''TESTIMONIAL_NOT_FOUND'' d"
  by (simp add: delete_testimonial_def refused_not_found)

lemma delete_testimonial_not_owner:
  assumes "find (\<lambda>r. te_testimonial_id r = testimonial_id) (testimonials d) = Some testimonial"
    and "te_user_id testimonial \<noteq> p_user_id user"
  shows "refused (delete_testimonial d user testimonial_id) 403 ''FORBIDDEN'' d"
proof -
  obtain rest where "filter (\<lambda>r. te_testimonial_id r = testimonial_id) (testimonials d) = testimonial # rest"
    using find_filter [OF assms(1)] by blast
  with assms(2) show ?thesis
    by (simp add: delete_testimonial_def refused_forbidden)
qed

lemma patch_blog_post_absent:
  "filter (\<lambda>r. bp_post_id r = post_id) (blog_posts d) = [] \<Longrightarrow>
   refused (patch_blog_post d user post_id b) 404 ''POST_NOT_FOUND'' d"
  by (simp add: patch_blog_post_def refused_not_found)

lemma patch_blog_post_not_owner:
  assumes "find (\<lambda>r. bp_post_id r = post_id) (blog_posts d) = Some post"
    and "bp_user_id post \<noteq> p_user_id user"
  shows "refused (patch_blog_post d user post_id b) 403 ''FORBIDDEN'' d"
proof -
  obtain rest where "filter (\<lambda>r. bp_post_id r = post_id) (blog_posts d) = post # rest"
    using find_filter [OF assms(1)] by blast
  with assms(2) show ?thesis
    by (simp add: patch_blog_post_def refused_forbidden)
qed

lemma delete_blog_post_absent:
  "filter (\<lambda>r. bp_post_id r = post_id) (blog_posts d) = [] \<Longrightarrow>
   refused (delete_blog_post d user post_id) 404 ''POST_NOT_FOUND'' d"
  by (simp add: delete_blog_post_def refused_not_found)

lemma delete_blog_post_not_owner:
  assumes "find (\<lambda>r. bp_post_id r = post_id) (blog_posts d) = Some post"
    and "bp_user_id post \<noteq> p_user_id user"
  shows "refused (delete_blog_post d user post_id) 403 ''FORBIDDEN'' d"
proof -
  obtain rest where "filter (\<lambda>r. bp_post_id r = post_id) (blog_posts d) = post # rest"
    using find_filter [OF assms(1)] by blast
  with assms(2) show ?thesis
    by (simp add: delete_blog_post_def refused_forbidden)
qed

lemma patch_user_not_owner:
  "p_user_id user \<noteq> owner_id \<Longrightarrow> refused (patch_user z d user owner_id b) 403 ''FORBIDDEN'' d"
  by (simp add: patch_user_def refused_forbidden)

lemma patch_user_settings_not_owner:
  "p_user_id user \<noteq> owner_id \<Longrightarrow> refused (patch_user_settings d user owner_id b) 403 ''FORBIDDEN'' d"
  by (simp add: patch_user_settings_def refused_forbidden)

lemma post_project_not_owner:
  "p_user_id user \<noteq> owner_id \<Longrightarrow> refused (post_project z uuid d user owner_id b) 403 ''FORBIDDEN'' d"
  by (simp add: post_project_def refused_forbidden)

lemma post_skill_not_owner:
  "p_user_id user \<noteq> owner_id \<Longrightarrow> refused (post_skill uuid d user owner_id b) 403 ''FORBIDDEN'' d"
  by (simp add: post_skill_def refused_forbidden)

lemma post_experience_not_owner:
  "p_user_id user \<noteq> owner_id \<Longrightarrow> refused (post_experience z uuid d user owner_id b) 403 ''FORBIDDEN'' d"
  by (simp add: post_experience_def refused_forbidden)

lemma post_testimonial_not_owner:
  "p_user_id user \<noteq> owner_id \<Longrightarrow> refused (post_testimonial uuid d user owner_id b) 403 ''FORBIDDEN'' d"
  by (simp add: post_testimonial_def refused_forbidden)

lemma post_blog_post_not_owner:
  "p_user_id user \<noteq> owner_id \<Longrightarrow> refused (post_blog_post uuid now d user owner_id b) 403 ''FORBIDDEN'' d"
  by (simp add: post_blog_post_def refused_forbidden)

lemma get_analytics_handler_not_owner:
  "p_user_id user \<noteq> owner_id \<Longrightarrow> refused (get_analytics_handler uuid d user owner_id) 403 ''FORBIDDEN'' d"
  by (simp add: get_analytics_handler_def refused_forbidden)

text \<open>
  C2. Updating or deleting a project, skill, experience entry, testimonial or
  blog post whose id matches no row is answered with 404 and the resource's
  not-found code, whoever the principal is, and the store is left as it was:
  the existence check comes before the ownership comparison, so a principal
  who owns nothing gets NotFound for an unknown id, never Forbidden.
\<close>

theorem not_found_before_ownership:
  "(filter (\<lambda>r. pr_project_id r = project_id) (projects d) = [] \<longrightarrow>
      refused (patch_project z d user project_id b) 404 ''PROJECT_NOT_FOUND'' d
      \<and> refused (delete_project_handler d user project_id) 404 ''PROJECT_NOT_FOUND'' d)
   \<and> (filter (\<lambda>r. sk_skill_id r = skill_id) (skills d) = [] \<longrightarrow>
      refused (patch_skill d user skill_id b) 404 ''SKILL_NOT_FOUND'' d
      \<and> refused (delete_skill d user skill_id) 404 ''SKILL_NOT_FOUND'' d)
   \<and> (filter (\<lambda>r. ex_experience_id r = experience_id) (experience_timeline d) = [] \<longrightarrow>
      refused (patch_experience z d user experience_id b) 404 ''EXPERIENCE_NOT_FOUND'' d
      \<and> refused (delete_experience d user experience_id) 404 ''EXPERIENCE_NOT_FOUND'' d)
   \<and> (filter (\<lambda>r. te_testimonial_id r = testimonial_id) (testimonials d) = [] \<longrightarrow>
      refused (patch_testimonial d user testimonial_id b) 404 ''TESTIMONIAL_NOT_FOUND'' d
      \<and> refused (delete_testimonial d user testimonial_id) 404 ''TESTIMONIAL_NOT_FOUND'' d)
   \<and> (filter (\<lambda>r. bp_post_id r = post_id) (blog_posts d) = [] \<longrightarrow>
      refused (patch_blog_post d user post_id b) 404 ''POST_NOT_FOUND'' d
      \<and> refused (delete_blog_post d user post_id) 404 ''POST_NOT_FOUND'' d)"
  by (simp add: patch_project_absent delete_project_handler_absent patch_skill_absent delete_skill_absent patch_experience_absent delete_experience_absent patch_testimonial_absent delete_testimonial_absent patch_blog_post_absent delete_blog_post_absent)

theorem not_found_before_ownership_witness:
  "refused (patch_project example_zod seed_db jane ''nothing'' []) 404 ''PROJECT_NOT_FOUND'' seed_db
   \<and> refused (delete_project_handler seed_db jane ''nothing'') 404 ''PROJECT_NOT_FOUND'' seed_db
   \<and> refused (patch_skill seed_db jane ''nothing'' []) 404 ''SKILL_NOT_FOUND'' seed_db
   \<and> refused (delete_skill seed_db jane ''nothing'') 404 ''SKILL_NOT_FOUND'' seed_db
   \<and> refused (patch_experience example_zod seed_db jane ''nothing'' []) 404 ''EXPERIENCE_NOT_FOUND'' seed_db
   \<and> refused (delete_experience seed_db jane ''nothing'') 404 ''EXPERIENCE_NOT_FOUND'' seed_db
   \<and> refused (patch_testimonial seed_db jane ''nothing'' []) 404 ''TESTIMONIAL_NOT_FOUND'' seed_db
   \<and> refused (delete_testimonial seed_db jane ''nothing'') 404 ''TESTIMONIAL_NOT_FOUND'' seed_db
   \<and> refused (patch_blog_post seed_db jane ''nothing'' []) 404 ''POST_NOT_FOUND'' seed_db
   \<and> refused (delete_blog_post seed_db jane ''nothing'') 404 ''POST_NOT_FOUND'' seed_db"
  using not_found_before_ownership [where d = seed_db and user = jane and z = example_zod and b = "[]" and project_id = "''nothing''" and skill_id = "''nothing''" and experience_id = "''nothing''" and testimonial_id = "''nothing''" and post_id = "''nothing''"]
  by (simp add: seed_db_def seed_projects_def seed_skills_def seed_experience_timeline_def seed_testimonials_def seed_blog_posts_def)

text \<open>
  The check that the owner-only handlers make: when the id of the principal
  differs from the \<open>user_id\<close> of the path, or from the \<open>user_id\<close> of the
  stored row that an update or a deletion addresses, the answer is 403 with the
  code FORBIDDEN and the store is left as it was, whatever the payload.
\<close>

lemma owner_check_refuses:
  assumes "p_user_id user \<noteq> owner_id"
  shows "refused (patch_user z d user owner_id b) 403 ''FORBIDDEN'' d
   \<and> refused (patch_user_settings d user owner_id b) 403 ''FORBIDDEN'' d
   \<and> refused (post_project z uuid d user owner_id b) 403 ''FORBIDDEN'' d
   \<and> refused (post_skill uuid d user owner_id b) 403 ''FORBIDDEN'' d
   \<and> refused (post_experience z uuid d user owner_id b) 403 ''FORBIDDEN'' d
   \<and> refused (post_testimonial uuid d user owner_id b) 403 ''FORBIDDEN'' d
   \<and> refused (post_blog_post uuid now d user owner_id b) 403 ''FORBIDDEN'' d
   \<and> refused (get_analytics_handler uuid d user owner_id) 403 ''FORBIDDEN'' d
   \<and> (find (\<lambda>r. pr_project_id r = project_id) (projects d) = Some project \<and> pr_user_id project = owner_id \<longrightarrow>
      refused (patch_project z d user project_id b) 403 ''FORBIDDEN'' d
      \<and> refused (delete_project_handler d user project_id) 403 ''FORBIDDEN'' d)
   \<and> (find (\<lambda>r. sk_skill_id r = skill_id) (skills d) = Some skill \<and> sk_user_id skill = owner_id \<longrightarrow>
      refused (patch_skill d user skill_id b) 403 ''FORBIDDEN'' d
      \<and> refused (delete_skill d user skill_id) 403 ''FORBIDDEN'' d)
   \<and> (find (\<lambda>r. ex_experience_id r = experience_id) (experience_timeline d) = Some experience \<and> ex_user_id experience = owner_id \<longrightarrow>
      refused (patch_experience z d user experience_id b) 403 ''FORBIDDEN'' d
      \<and> refused (delete_experience d user experience_id) 403 ''FORBIDDEN'' d)
   \<and> (find (\<lambda>r. te_testimonial_id r = testimonial_id) (testimonials d) = Some testimonial \<and> te_user_id testimonial = owner_id \<longrightarrow>
      refused (patch_testimonial d user testimonial_id b) 403 ''FORBIDDEN'' d
      \<and> refused (delete_testimonial d user testimonial_id) 403 ''FORBIDDEN'' d)
   \<and> (find (\<lambda>r. bp_post_id r = post_id) (blog_posts d) = Some post \<and> bp_user_id post = owner_id \<longrightarrow>
      refused (patch_blog_post d user post_id b) 403 ''FORBIDDEN'' d
      \<and> refused (delete_blog_post d user post_id) 403 ''FORBIDDEN'' d)"
  using assms
  by (simp add: patch_user_not_owner patch_user_settings_not_owner post_project_not_owner post_skill_not_owner post_experience_not_owner post_testimonial_not_owner post_blog_post_not_owner get_analytics_handler_not_owner patch_project_not_owner delete_project_handler_not_owner patch_skill_not_owner delete_skill_not_owner patch_experience_not_owner delete_experience_not_owner patch_testimonial_not_owner delete_testimonial_not_owner patch_blog_post_not_owner delete_blog_post_not_owner)

text \<open>
  C1. The owner that the settings update and the five creation handlers write
  is not the one they check: the check compares the principal with the
  \<open>user_id\<close> of the path, the row is written with the \<open>user_id\<close> of the
  validated payload, and a \<open>user_id\<close> in the body overrides the path. On the
  seeded store, principal \<open>user1\<close> sends the settings update for the path
  \<open>user1\<close> with \<open>user_id\<close> \<open>user2\<close> in the body: the answer is 200 and the
  settings row of \<open>user2\<close> is overwritten. The creation of a project with such a
  body is answered with 201 and inserts a project owned by \<open>user2\<close>. In both
  requests the id of the principal differs from the owner of the row that is
  written, and the answer is not 403.
\<close>

theorem body_user_id_bypasses_ownership:
  "p_user_id john \<noteq> ''user2''
   \<and> patch_user_settings seed_db john ''user1''
        [(''user_id'', JStr ''user2''), (''font_selection'', JStr ''Comic'')]
     = (reply 200 (Message ''Settings updated successfully''),
        seed_db\<lparr>user_settings :=
          [\<lparr>us_user_id = ''user1'', color_scheme = Some [(''background'', ''dark'')],
            chosen_template = Some ''template1'', font_selection = Some ''Arial''\<rparr>,
           \<lparr>us_user_id = ''user2'', color_scheme = None, chosen_template = None,
            font_selection = Some ''Comic''\<rparr>]\<rparr>)
   \<and> post_project example_zod ''project3'' seed_db john ''user1''
        [(''user_id'', JStr ''user2''), (''title'', JStr ''Planted'')]
     = (reply 201 (ProjectBody
          \<lparr>pr_project_id = ''project3'', pr_user_id = ''user2'', pr_title = ''Planted'',
           pr_description = None, pr_images = Some [], pr_project_url = None\<rparr>),
        seed_db\<lparr>projects := seed_projects @
          [\<lparr>pr_project_id = ''project3'', pr_user_id = ''user2'', pr_title = ''Planted'',
            pr_description = None, pr_images = None, pr_project_url = None\<rparr>]\<rparr>)"
  by (simp add: patch_user_settings_def createUserSettingsInputSchema_def upsert_user_settings_def
      post_project_def createProjectInputSchema_def insert_project_def with_parsed_images_def
      spread_def required_def nullable_optional_def user_exists_def john_def
      seed_db_def seed_users_def seed_user_settings_def seed_projects_def)

section \<open>Deleting a project\<close>

lemma delete_project_after_comments:
  "delete_project (delete_comments_of d pid) pid =
     Some ((delete_comments_of d pid)
             \<lparr>projects := filter (\<lambda>p. pr_project_id p \<noteq> pid) (projects d)\<rparr>)"
  by (auto simp: delete_project_def delete_comments_of_def)

text \<open>
  C6. When the owner deletes an existing project, the handler first deletes
  every comment whose \<open>project_id\<close> is that id and then the project row: the
  answer is 204 with an empty body, the store left is the one obtained by the
  two statements in that order, no comment of the project and no row of the
  project remain (the comment count for the id is 0), and the comments of other
  projects are kept.
\<close>

theorem delete_project_cascades:
  assumes "find (\<lambda>r. pr_project_id r = project_id) (projects d) = Some project"
    and "pr_user_id project = p_user_id user"
  shows "fst (delete_project_handler d user project_id) = reply 204 Empty
   \<and> delete_project (delete_comments_of d project_id) project_id
       = Some (snd (delete_project_handler d user project_id))
   \<and> comments (snd (delete_project_handler d user project_id))
       = filter (\<lambda>c. co_project_id c \<noteq> project_id) (comments d)
   \<and> projects (snd (delete_project_handler d user project_id))
       = filter (\<lambda>p. pr_project_id p \<noteq> project_id) (projects d)
   \<and> length (filter (\<lambda>c. co_project_id c = project_id)
         (comments (snd (delete_project_handler d user project_id)))) = 0
   \<and> project_id \<notin> set (map pr_project_id (projects (snd (delete_project_handler d user project_id))))"
proof -
  obtain rest where "filter (\<lambda>r. pr_project_id r = project_id) (projects d) = project # rest"
    using find_filter [OF assms(1)] by blast
  with assms(2) have out: "delete_project_handler d user project_id =
      (reply 204 Empty, (delete_comments_of d project_id)
         \<lparr>projects := filter (\<lambda>p. pr_project_id p \<noteq> project_id) (projects d)\<rparr>)"
    by (simp add: delete_project_handler_def delete_project_after_comments Let_def)
  have "comments (delete_comments_of d project_id)
      = filter (\<lambda>c. co_project_id c \<noteq> project_id) (comments d)"
    by (simp add: delete_comments_of_def)
  then show ?thesis
    unfolding out by (auto simp: delete_project_after_comments)
qed

theorem delete_project_cascades_witness:
  "fst (delete_project_handler seed_db john ''project1'') = reply 204 Empty
   \<and> comments (snd (delete_project_handler seed_db john ''project1'')) = [seed_comments ! 1]
   \<and> projects (snd (delete_project_handler seed_db john ''project1'')) = [seed_projects ! 1]
   \<and> length (filter (\<lambda>c. co_project_id c = ''project1'')
         (comments (snd (delete_project_handler seed_db john ''project1'')))) = 0"
  using delete_project_cascades [where d = seed_db and user = john and project_id = "''project1''"
      and project = "hd seed_projects"]
  by (simp add: john_def seed_db_def seed_projects_def seed_comments_def)

section \<open>Reading the analytics\<close>

lemma with_parsed_analytics_throws:
  "popular_projects a \<noteq> None \<or> interaction_data a \<noteq> None \<Longrightarrow> with_parsed_analytics a = None"
  by (auto simp: with_parsed_analytics_def JSON_parse_or_def split: option.splits)

text \<open>
  C7. On the seeded store without analytics rows, the authenticated user
  \<open>user1\<close> reads their analytics: the handler inserts the zeroed row, reads it
  back with both JSON columns set, and \<^verbatim>\<open>JSON.parse\<close> throws on the first of
  them; the answer is 500 and the row stays in the table. The second read finds
  that row, throws at the same place and is answered with 500 again.
\<close>

theorem analytics_first_read_is_internal_error:
  "select_analytics (seed_db\<lparr>analytics := []\<rparr>) ''user1'' = []
   \<and> get_analytics example_jwt ''analytics3'' (seed_db\<lparr>analytics := []\<rparr>)
        (Some ''Bearer user1'') ''user1''
     = (reply 500 (ErrorResponse ''Internal server error'' (Some SyntaxError)
                     ''INTERNAL_SERVER_ERROR''),
        seed_db\<lparr>analytics :=
          [\<lparr>an_analytics_id = ''analytics3'', an_user_id = ''user1'', visit_count = 0,
            popular_projects = Some [(''popular'', JArr [])],
            interaction_data =
              Some [(''views'', JNum 0), (''comments'', JNum 0), (''contacts'', JNum 0)]\<rparr>]\<rparr>)
   \<and> get_analytics example_jwt ''analytics4''
        (seed_db\<lparr>analytics :=
          [\<lparr>an_analytics_id = ''analytics3'', an_user_id = ''user1'', visit_count = 0,
            popular_projects = Some [(''popular'', JArr [])],
            interaction_data =
              Some [(''views'', JNum 0), (''comments'', JNum 0), (''contacts'', JNum 0)]\<rparr>]\<rparr>)
        (Some ''Bearer user1'') ''user1''
     = (reply 500 (ErrorResponse ''Internal server error'' (Some SyntaxError)
                     ''INTERNAL_SERVER_ERROR''),
        seed_db\<lparr>analytics :=
          [\<lparr>an_analytics_id = ''analytics3'', an_user_id = ''user1'', visit_count = 0,
            popular_projects = Some [(''popular'', JArr [])],
            interaction_data =
              Some [(''views'', JNum 0), (''comments'', JNum 0), (''contacts'', JNum 0)]\<rparr>]\<rparr>)"
proof -
  have auth: "authenticateToken example_jwt (seed_db\<lparr>analytics := rows\<rparr>) (Some ''Bearer user1'')
      = Inr john" for rows
    by (simp add: authenticateToken_def bearer_token_def example_jwt_def seed_db_def
        seed_users_def to_principal_def john_def)
  have known: "user_exists (seed_db\<lparr>analytics := rows\<rparr>) ''user1''" for rows
    by (simp add: user_exists_def seed_db_def seed_users_def)
  have john: "p_user_id john = ''user1''"
    by (simp add: john_def)
  show ?thesis
    by (simp add: get_analytics_def protected_def auth get_analytics_handler_def john known
        select_analytics_def insert_analytics_def send_analytics_def
        with_parsed_analytics_throws initial_popular_projects_def initial_interaction_data_def
        internal_error_def createErrorResponse_def)
qed

section \<open>Password reset does not reveal accounts\<close>

text \<open>
  C9. A password-reset request whose \<^verbatim>\<open>email\<close> is a non-empty string is
  answered with 200 and the fixed acknowledgment, whatever the store holds: for
  two such requests, one with the e-mail of an existing user and one with an
  e-mail of no user, status and body are the same.
\<close>

theorem password_reset_hides_existence:
  assumes "map_of body_a ''email'' = Some (JStr email_a)" and "email_a \<noteq> []"
    and "map_of body_b ''email'' = Some (JStr email_b)" and "email_b \<noteq> []"
  shows "password_reset d body_a = reply 200 reset_acknowledgment
   \<and> password_reset d body_b = password_reset d body_a
   \<and> password_reset d' body_a = password_reset d body_a"
  using assms by (simp add: password_reset_def)

theorem password_reset_hides_existence_witness:
  "''john.doe@example.com'' \<in> set (map u_email (users seed_db))
   \<and> ''nobody@example.com'' \<notin> set (map u_email (users seed_db))
   \<and> password_reset seed_db [(''email'', JStr ''john.doe@example.com'')]
       = reply 200 reset_acknowledgment
   \<and> password_reset seed_db [(''email'', JStr ''nobody@example.com'')]
       = password_reset seed_db [(''email'', JStr ''john.doe@example.com'')]"
  using password_reset_hides_existence [where d = seed_db
      and body_a = "[(''email'', JStr ''john.doe@example.com'')]" and email_a = "''john.doe@example.com''"
      and body_b = "[(''email'', JStr ''nobody@example.com'')]" and email_b = "''nobody@example.com''"]
  by (simp add: seed_db_def seed_users_def)


section \<open>The contact form and the analytics table\<close>

text \<open>
  Whatever the store does with the counter update, the contact form adds no
  analytics row and touches no column other than \<open>interaction_data\<close> of the
  rows of the addressed user.
\<close>

lemma increment_contacts_no_row:
  assumes "select_analytics d user_id = []"
  shows "increment_contacts (Some f) d user_id = Some d"
proof -
  have none: "\<forall>a \<in> set (analytics d). an_user_id a \<noteq> user_id"
    using assms by (auto simp: select_analytics_def filter_empty_conv)
  then have "map (\<lambda>a. if an_user_id a = user_id
                       then (case f (interaction_data a) of None \<Rightarrow> a
                             | Some v \<Rightarrow> a\<lparr>interaction_data := v\<rparr>)
                       else a) (analytics d) = analytics d"
    by (simp add: map_idI)
  moreover have "\<not> list_ex (\<lambda>a. an_user_id a = user_id \<and> f (interaction_data a) = None)
                     (analytics d)"
    using none by (auto simp: list_ex_iff)
  ultimately show ?thesis
    by (simp add: increment_contacts_def)
qed

lemma increment_contacts_frame:
  assumes "increment_contacts expr d user_id = Some d'"
  shows "list_all2 same_but_interaction_data (analytics d) (analytics d')"
    and "filter (\<lambda>a. an_user_id a \<noteq> user_id) (analytics d')
         = filter (\<lambda>a. an_user_id a \<noteq> user_id) (analytics d)"
    and "visitor_messages d' = visitor_messages d"
proof -
  obtain f where f: "expr = Some f"
    using assms by (cases expr) (simp_all add: increment_contacts_def)
  let ?f = "\<lambda>a. if an_user_id a = user_id
                 then (case f (interaction_data a) of None \<Rightarrow> a
                       | Some v \<Rightarrow> a\<lparr>interaction_data := v\<rparr>)
                 else a"
  have d': "d' = d\<lparr>analytics := map ?f (analytics d)\<rparr>"
    using assms f by (simp add: increment_contacts_def split: if_splits)
  have row: "same_but_interaction_data a (?f a)" for a
    by (simp add: same_but_interaction_data_def split: option.splits)
  show "list_all2 same_but_interaction_data (analytics d) (analytics d')"
    unfolding d' using row by (simp add: list_all2_map2 list_all2_same)
  have "filter (\<lambda>a. an_user_id a \<noteq> user_id) (map ?f xs)
        = filter (\<lambda>a. an_user_id a \<noteq> user_id) xs" for xs
    by (induction xs) (auto split: option.splits)
  then show "filter (\<lambda>a. an_user_id a \<noteq> user_id) (analytics d')
         = filter (\<lambda>a. an_user_id a \<noteq> user_id) (analytics d)"
    unfolding d' by simp
  show "visitor_messages d' = visitor_messages d"
    unfolding d' by simp
qed

lemma same_but_interaction_data_refl: "list_all2 same_but_interaction_data xs xs"
  by (simp add: list_all2_same same_but_interaction_data_def)

lemma insert_visitor_message_frame:
  "insert_visitor_message d r = Some d1 \<Longrightarrow>
   analytics d1 = analytics d \<and> visitor_messages d1 = visitor_messages d @ [r]"
  by (auto simp: insert_visitor_message_def split: if_splits)

lemma contact_cases:
  "snd (contact z expr uuid now d user_id b) = d
   \<or> (\<exists>r d1. insert_visitor_message d r = Some d1
         \<and> (snd (contact z expr uuid now d user_id b) = d1
            \<or> increment_contacts expr d1 user_id
                = Some (snd (contact z expr uuid now d user_id b))))"
  by (auto simp: contact_def split: option.splits)

lemma contact_analytics_frame:
  "list_all2 same_but_interaction_data (analytics d)
     (analytics (snd (contact z expr uuid now d user_id b)))
   \<and> filter (\<lambda>a. an_user_id a \<noteq> user_id) (analytics (snd (contact z expr uuid now d user_id b)))
       = filter (\<lambda>a. an_user_id a \<noteq> user_id) (analytics d)"
proof -
  let ?d' = "snd (contact z expr uuid now d user_id b)"
  consider "?d' = d"
    | r d1 where "insert_visitor_message d r = Some d1" "?d' = d1"
    | r d1 where "insert_visitor_message d r = Some d1"
        "increment_contacts expr d1 user_id = Some ?d'"
    using contact_cases [of z expr uuid now d user_id b] by blast
  then show ?thesis
  proof cases
    case 1
    then show ?thesis by (simp add: same_but_interaction_data_refl)
  next
    case 2
    then show ?thesis
      using insert_visitor_message_frame [of d r d1] by (simp add: same_but_interaction_data_refl)
  next
    case 3
    then show ?thesis
      using insert_visitor_message_frame [of d r d1]
        increment_contacts_frame(1,2) [of expr d1 user_id ?d'] by simp
  qed
qed

lemma contact_no_row:
  assumes "select_analytics d user_id = []"
  shows "analytics (snd (contact z expr uuid now d user_id b)) = analytics d"
proof -
  have "increment_contacts expr d1 user_id = Some d2 \<Longrightarrow> d2 = d1"
    if "analytics d1 = analytics d" for d1 d2
    using assms that increment_contacts_no_row [of d1 user_id]
    by (cases expr) (simp_all add: increment_contacts_def select_analytics_def)
  then show ?thesis
    using contact_cases [of z expr uuid now d user_id b]
    by (auto dest!: insert_visitor_message_frame)
qed

text \<open>
  C10. On the seeded store, a valid contact message for \<open>user1\<close> inserts one
  row into \<open>visitor_messages\<close>; the update of the contact counter is then
  rejected by the store and the answer is 500, not 200. This is so when
  \<open>user1\<close> has no analytics row and when \<open>user1\<close> has one; in both cases the
  analytics table is left as it was, so the contacts counter of an existing row
  is not incremented.
\<close>

theorem contact_counter_update_is_rejected:
  "contact example_zod postgres_set_expr ''message3'' ''2024-01-01''
     (seed_db\<lparr>analytics := []\<rparr>) ''user1'' [(''visitor_message'', JStr ''Hello'')]
   = (reply 500 (ErrorResponse ''Internal server error'' (Some StoreError)
                   ''INTERNAL_SERVER_ERROR''),
      seed_db\<lparr>analytics := [],
        visitor_messages := seed_visitor_messages @
          [\<lparr>vm_message_id = ''message3'', vm_user_id = ''user1'', visitor_email = None,
            visitor_message = ''Hello'', sent_at = ''2024-01-01''\<rparr>]\<rparr>)
   \<and> select_analytics seed_db ''user1'' = [hd seed_analytics]
   \<and> contact example_zod postgres_set_expr ''message3'' ''2024-01-01''
       seed_db ''user1'' [(''visitor_message'', JStr ''Hello'')]
   = (reply 500 (ErrorResponse ''Internal server error'' (Some StoreError)
                   ''INTERNAL_SERVER_ERROR''),
      seed_db\<lparr>visitor_messages := seed_visitor_messages @
          [\<lparr>vm_message_id = ''message3'', vm_user_id = ''user1'', visitor_email = None,
            visitor_message = ''Hello'', sent_at = ''2024-01-01''\<rparr>]\<rparr>)"
  by (simp add: contact_def createVisitorMessageInputSchema_def spread_def required_def
      nullable_optional_def insert_visitor_message_def user_exists_def increment_contacts_def
      postgres_set_expr_def select_analytics_def internal_error_def createErrorResponse_def
      seed_db_def seed_users_def seed_visitor_messages_def seed_analytics_def)


section \<open>What a rejected payload is answered with\<close>

lemma refused_internal_error: "refused (internal_error e, d) 500 ''INTERNAL_SERVER_ERROR'' d"
  by (simp add: refused_def internal_error_def reply_def createErrorResponse_def)

lemma register_invalid:
  "createUserInputSchema z b = None \<Longrightarrow>
   refused (register z j uuid now d b) 500 ''INTERNAL_SERVER_ERROR'' d"
  by (simp add: register_def refused_internal_error)

lemma post_comment_invalid:
  "filter (\<lambda>p. pr_project_id p = project_id) (projects d) \<noteq> [] \<Longrightarrow>
   createCommentInputSchema (spread ''project_id'' project_id b) = None \<Longrightarrow>
   refused (post_comment uuid now d project_id b) 500 ''INTERNAL_SERVER_ERROR'' d"
  by (simp add: post_comment_def refused_internal_error)

lemma contact_invalid:
  "filter (\<lambda>u. u_user_id u = user_id) (users d) \<noteq> [] \<Longrightarrow>
   createVisitorMessageInputSchema z (spread ''user_id'' user_id b) = None \<Longrightarrow>
   refused (contact z expr uuid now d user_id b) 500 ''INTERNAL_SERVER_ERROR'' d"
  by (simp add: contact_def refused_internal_error)

lemma patch_user_invalid:
  "p_user_id user = user_id \<Longrightarrow> updateUserProfileInputSchema z (spread ''user_id'' user_id b) = None \<Longrightarrow>
   refused (patch_user z d user user_id b) 500 ''INTERNAL_SERVER_ERROR'' d"
  by (simp add: patch_user_def refused_internal_error)

lemma patch_user_settings_invalid:
  "p_user_id user = user_id \<Longrightarrow> createUserSettingsInputSchema (spread ''user_id'' user_id b) = None \<Longrightarrow>
   refused (patch_user_settings d user user_id b) 500 ''INTERNAL_SERVER_ERROR'' d"
  by (simp add: patch_user_settings_def refused_internal_error)

lemma post_project_invalid:
  "p_user_id user = user_id \<Longrightarrow> createProjectInputSchema z (spread ''user_id'' user_id b) = None \<Longrightarrow>
   refused (post_project z uuid d user user_id b) 500 ''INTERNAL_SERVER_ERROR'' d"
  by (simp add: post_project_def refused_internal_error)

lemma post_skill_invalid:
  "p_user_id user = user_id \<Longrightarrow> createSkillInputSchema (spread ''user_id'' user_id b) = None \<Longrightarrow>
   refused (post_skill uuid d user user_id b) 500 ''INTERNAL_SERVER_ERROR'' d"
  by (simp add: post_skill_def refused_internal_error)

lemma post_experience_invalid:
  "p_user_id user = user_id \<Longrightarrow> createExperienceTimelineInputSchema z (spread ''user_id'' user_id b) = None \<Longrightarrow>
   refused (post_experience z uuid d user user_id b) 500 ''INTERNAL_SERVER_ERROR'' d"
  by (simp add: post_experience_def refused_internal_error)

lemma post_testimonial_invalid:
  "p_user_id user = user_id \<Longrightarrow> createTestimonialInputSchema (spread ''user_id'' user_id b) = None \<Longrightarrow>
   refused (post_testimonial uuid d user user_id b) 500 ''INTERNAL_SERVER_ERROR'' d"
  by (simp add: post_testimonial_def refused_internal_error)

lemma post_blog_post_invalid:
  "p_user_id user = user_id \<Longrightarrow> createBlogPostInputSchema (spread ''user_id'' user_id b) = None \<Longrightarrow>
   refused (post_blog_post uuid now d user user_id b) 500 ''INTERNAL_SERVER_ERROR'' d"
  by (simp add: post_blog_post_def refused_internal_error)

lemma patch_project_invalid:
  assumes "find (\<lambda>r. pr_project_id r = project_id) (projects d) = Some project"
    and "pr_user_id project = p_user_id user"
    and "createProjectInputSchema z b = None"
  shows "refused (patch_project z d user project_id b) 500 ''INTERNAL_SERVER_ERROR'' d"
proof -
  obtain rest where "filter (\<lambda>r. pr_project_id r = project_id) (projects d) = project # rest"
    using find_filter [OF assms(1)] by blast
  with assms(2,3) show ?thesis
    by (simp add: patch_project_def refused_internal_error)
qed

lemma patch_skill_invalid:
  assumes "find (\<lambda>r. sk_skill_id r = skill_id) (skills d) = Some skill"
    and "sk_user_id skill = p_user_id user"
    and "createSkillInputSchema b = None"
  shows "refused (patch_skill d user skill_id b) 500 ''INTERNAL_SERVER_ERROR'' d"
proof -
  obtain rest where "filter (\<lambda>r. sk_skill_id r = skill_id) (skills d) = skill # rest"
    using find_filter [OF assms(1)] by blast
  with assms(2,3) show ?thesis
    by (simp add: patch_skill_def refused_internal_error)
qed

lemma patch_experience_invalid:
  assumes "find (\<lambda>r. ex_experience_id r = experience_id) (experience_timeline d) = Some experience"
    and "ex_user_id experience = p_user_id user"
    and "createExperienceTimelineInputSchema z b = None"
  shows "refused (patch_experience z d user experience_id b) 500 ''INTERNAL_SERVER_ERROR'' d"
proof -
  obtain rest where "filter (\<lambda>r. ex_experience_id r = experience_id) (experience_timeline d) = experience # rest"
    using find_filter [OF assms(1)] by blast
  with assms(2,3) show ?thesis
    by (simp add: patch_experience_def refused_internal_error)
qed

lemma patch_testimonial_invalid:
  assumes "find (\<lambda>r. te_testimonial_id r = testimonial_id) (testimonials d) = Some testimonial"
    and "te_user_id testimonial = p_user_id user"
    and "createTestimonialInputSchema b = None"
  shows "refused (patch_testimonial d user testimonial_id b) 500 ''INTERNAL_SERVER_ERROR'' d"
proof -
  obtain rest where "filter (\<lambda>r. te_testimonial_id r = testimonial_id) (testimonials d) = testimonial # rest"
    using find_filter [OF assms(1)] by blast
  with assms(2,3) show ?thesis
    by (simp add: patch_testimonial_def refused_internal_error)
qed

lemma patch_blog_post_invalid:
  assumes "find (\<lambda>r. bp_post_id r = post_id) (blog_posts d) = Some post"
    and "bp_user_id post = p_user_id user"
    and "createBlogPostInputSchema b = None"
  shows "refused (patch_blog_post d user post_id b) 500 ''INTERNAL_SERVER_ERROR'' d"
proof -
  obtain rest where "filter (\<lambda>r. bp_post_id r = post_id) (blog_posts d) = post # rest"
    using find_filter [OF assms(1)] by blast
  with assms(2,3) show ?thesis
    by (simp add: patch_blog_post_def refused_internal_error)
qed

lemma authenticateToken_missing:
  "bearer_token authHeader = None \<Longrightarrow>
   rejected (authenticateToken j d authHeader) 401 ''AUTH_TOKEN_MISSING''"
  by (simp add: authenticateToken_def rejected_def reply_def createErrorResponse_def)

lemma authenticateToken_invalid:
  "bearer_token authHeader = Some token \<Longrightarrow> jwt_verify j token = None \<Longrightarrow>
   rejected (authenticateToken j d authHeader) 403 ''AUTH_TOKEN_INVALID''"
  by (simp add: authenticateToken_def rejected_def reply_def createErrorResponse_def)

lemma authenticateToken_unknown_user:
  "bearer_token authHeader = Some token \<Longrightarrow> jwt_verify j token = Some decoded \<Longrightarrow>
   filter (\<lambda>u. Some (u_user_id u) = decoded) (users d) = [] \<Longrightarrow>
   rejected (authenticateToken j d authHeader) 401 ''AUTH_TOKEN_INVALID''"
  by (simp add: authenticateToken_def rejected_def reply_def createErrorResponse_def)

text \<open>
  C5, as the claim states it, fails: a request to create a skill without a
  \<open>skill_name\<close> is rejected by the validator and answered with 500, not 400.
\<close>

theorem validation_error_status_counterexample:
  "createSkillInputSchema (spread ''user_id'' ''user1'' []) = None
   \<and> fst (post_skill ''skill3'' seed_db john ''user1'' [])
       = reply 500 (ErrorResponse ''Internal server error'' (Some ZodError) ''INTERNAL_SERVER_ERROR'')
   \<and> status (fst (post_skill ''skill3'' seed_db john ''user1'' [])) \<noteq> 400"
  by (simp add: createSkillInputSchema_def spread_def required_def post_skill_def john_def
      internal_error_def reply_def createErrorResponse_def)

text \<open>
  C5, amended. A payload that the validator rejects is answered with status
  500 and the code INTERNAL_SERVER_ERROR, the answer of every handler's
  \<^verbatim>\<open>catch\<close> block, and the store is left as it was; this holds for each of
  the fifteen handlers that validate, once the checks that come before the
  validation have passed. A missing credential is answered with 401, a token
  that fails verification with 403, a verified token whose user is not in the
  store with 401, Forbidden with 403, NotFound with 404, and any other
  failure caught by a handler with 500.
\<close>

theorem validation_failure_is_internal_error:
  "(createUserInputSchema z b = None \<longrightarrow>
      refused (register z j uuid now d b) 500 ''INTERNAL_SERVER_ERROR'' d)
   \<and> (p_user_id user = user_id \<and> updateUserProfileInputSchema z (spread ''user_id'' user_id b) = None \<longrightarrow>
      refused (patch_user z d user user_id b) 500 ''INTERNAL_SERVER_ERROR'' d)
   \<and> (p_user_id user = user_id \<and> createUserSettingsInputSchema (spread ''user_id'' user_id b) = None \<longrightarrow>
      refused (patch_user_settings d user user_id b) 500 ''INTERNAL_SERVER_ERROR'' d)
   \<and> (p_user_id user = user_id \<and> createProjectInputSchema z (spread ''user_id'' user_id b) = None \<longrightarrow>
      refused (post_project z uuid d user user_id b) 500 ''INTERNAL_SERVER_ERROR'' d)
   \<and> (p_user_id user = user_id \<and> createSkillInputSchema (spread ''user_id'' user_id b) = None \<longrightarrow>
      refused (post_skill uuid d user user_id b) 500 ''INTERNAL_SERVER_ERROR'' d)
   \<and> (p_user_id user = user_id \<and> createExperienceTimelineInputSchema z (spread ''user_id'' user_id b) = None \<longrightarrow>
      refused (post_experience z uuid d user user_id b) 500 ''INTERNAL_SERVER_ERROR'' d)
   \<and> (p_user_id user = user_id \<and> createTestimonialInputSchema (spread ''user_id'' user_id b) = None \<longrightarrow>
      refused (post_testimonial uuid d user user_id b) 500 ''INTERNAL_SERVER_ERROR'' d)
   \<and> (p_user_id user = user_id \<and> createBlogPostInputSchema (spread ''user_id'' user_id b) = None \<longrightarrow>
      refused (post_blog_post uuid now d user user_id b) 500 ''INTERNAL_SERVER_ERROR'' d)
   \<and> (find (\<lambda>r. pr_project_id r = project_id) (projects d) = Some project \<and> pr_user_id project = p_user_id user
      \<and> createProjectInputSchema z b = None \<longrightarrow>
      refused (patch_project z d user project_id b) 500 ''INTERNAL_SERVER_ERROR'' d)
   \<and> (find (\<lambda>r. sk_skill_id r = skill_id) (skills d) = Some skill \<and> sk_user_id skill = p_user_id user
      \<and> createSkillInputSchema b = None \<longrightarrow>
      refused (patch_skill d user skill_id b) 500 ''INTERNAL_SERVER_ERROR'' d)
   \<and> (find (\<lambda>r. ex_experience_id r = experience_id) (experience_timeline d) = Some experience \<and> ex_user_id experience = p_user_id user
      \<and> createExperienceTimelineInputSchema z b = None \<longrightarrow>
      refused (patch_experience z d user experience_id b) 500 ''INTERNAL_SERVER_ERROR'' d)
   \<and> (find (\<lambda>r. te_testimonial_id r = testimonial_id) (testimonials d) = Some testimonial \<and> te_user_id testimonial = p_user_id user
      \<and> createTestimonialInputSchema b = None \<longrightarrow>
      refused (patch_testimonial d user testimonial_id b) 500 ''INTERNAL_SERVER_ERROR'' d)
   \<and> (find (\<lambda>r. bp_post_id r = post_id) (blog_posts d) = Some post \<and> bp_user_id post = p_user_id user
      \<and> createBlogPostInputSchema b = None \<longrightarrow>
      refused (patch_blog_post d user post_id b) 500 ''INTERNAL_SERVER_ERROR'' d)
   \<and> (filter (\<lambda>p. pr_project_id p = project_id) (projects d) \<noteq> []
      \<and> createCommentInputSchema (spread ''project_id'' project_id b) = None \<longrightarrow>
      refused (post_comment uuid now d project_id b) 500 ''INTERNAL_SERVER_ERROR'' d)
   \<and> (filter (\<lambda>u. u_user_id u = user_id) (users d) \<noteq> []
      \<and> createVisitorMessageInputSchema z (spread ''user_id'' user_id b) = None \<longrightarrow>
      refused (contact z expr uuid now d user_id b) 500 ''INTERNAL_SERVER_ERROR'' d)
   \<and> (bearer_token header_a = None \<longrightarrow>
      rejected (authenticateToken j d header_a) 401 ''AUTH_TOKEN_MISSING'')
   \<and> (bearer_token header_b = Some token_b \<and> jwt_verify j token_b = None \<longrightarrow>
      rejected (authenticateToken j d header_b) 403 ''AUTH_TOKEN_INVALID'')
   \<and> (bearer_token header_c = Some token_c \<and> jwt_verify j token_c = Some decoded
      \<and> filter (\<lambda>u. Some (u_user_id u) = decoded) (users d) = [] \<longrightarrow>
      rejected (authenticateToken j d header_c) 401 ''AUTH_TOKEN_INVALID'')
   \<and> refused (forbidden message, d) 403 ''FORBIDDEN'' d
   \<and> refused (not_found message code, d) 404 code d
   \<and> refused (internal_error e, d) 500 ''INTERNAL_SERVER_ERROR'' d"
  by (simp add: register_invalid
      post_comment_invalid
      contact_invalid
      authenticateToken_missing
      authenticateToken_invalid
      authenticateToken_unknown_user
      refused_forbidden
      refused_not_found
      refused_internal_error
      patch_user_invalid
      patch_user_settings_invalid
      post_project_invalid
      post_skill_invalid
      post_experience_invalid
      post_testimonial_invalid
      post_blog_post_invalid
      patch_project_invalid
      patch_skill_invalid
      patch_experience_invalid
      patch_testimonial_invalid
      patch_blog_post_invalid)

theorem validation_failure_is_internal_error_witness:
  "refused (register example_zod example_jwt ''new-id'' ''2024-01-01'' seed_db [(''bio'', JNum 1), (''font_selection'', JNum 1)]) 500 ''INTERNAL_SERVER_ERROR'' seed_db
   \<and> refused (patch_user example_zod seed_db john ''user1'' [(''bio'', JNum 1), (''font_selection'', JNum 1)]) 500 ''INTERNAL_SERVER_ERROR'' seed_db
   \<and> refused (patch_user_settings seed_db john ''user1'' [(''bio'', JNum 1), (''font_selection'', JNum 1)]) 500 ''INTERNAL_SERVER_ERROR'' seed_db
   \<and> refused (post_project example_zod ''new-id'' seed_db john ''user1'' [(''bio'', JNum 1), (''font_selection'', JNum 1)]) 500 ''INTERNAL_SERVER_ERROR'' seed_db
   \<and> refused (post_skill ''new-id'' seed_db john ''user1'' [(''bio'', JNum 1), (''font_selection'', JNum 1)]) 500 ''INTERNAL_SERVER_ERROR'' seed_db
   \<and> refused (post_experience example_zod ''new-id'' seed_db john ''user1'' [(''bio'', JNum 1), (''font_selection'', JNum 1)]) 500 ''INTERNAL_SERVER_ERROR'' seed_db
   \<and> refused (post_testimonial ''new-id'' seed_db john ''user1'' [(''bio'', JNum 1), (''font_selection'', JNum 1)]) 500 ''INTERNAL_SERVER_ERROR'' seed_db
   \<and> refused (post_blog_post ''new-id'' ''2024-01-01'' seed_db john ''user1'' [(''bio'', JNum 1), (''font_selection'', JNum 1)]) 500 ''INTERNAL_SERVER_ERROR'' seed_db
   \<and> refused (patch_project example_zod seed_db john ''project1'' [(''bio'', JNum 1), (''font_selection'', JNum 1)]) 500 ''INTERNAL_SERVER_ERROR'' seed_db
   \<and> refused (patch_skill seed_db john ''skill1'' [(''bio'', JNum 1), (''font_selection'', JNum 1)]) 500 ''INTERNAL_SERVER_ERROR'' seed_db
   \<and> refused (patch_experience example_zod seed_db john ''exp1'' [(''bio'', JNum 1), (''font_selection'', JNum 1)]) 500 ''INTERNAL_SERVER_ERROR'' seed_db
   \<and> refused (patch_testimonial seed_db john ''test1'' [(''bio'', JNum 1), (''font_selection'', JNum 1)]) 500 ''INTERNAL_SERVER_ERROR'' seed_db
   \<and> refused (patch_blog_post seed_db john ''post1'' [(''bio'', JNum 1), (''font_selection'', JNum 1)]) 500 ''INTERNAL_SERVER_ERROR'' seed_db
   \<and> refused (post_comment ''new-id'' ''2024-01-01'' seed_db ''project1'' [(''bio'', JNum 1), (''font_selection'', JNum 1)]) 500 ''INTERNAL_SERVER_ERROR'' seed_db
   \<and> refused (contact example_zod None ''new-id'' ''2024-01-01'' seed_db ''user1'' [(''bio'', JNum 1), (''font_selection'', JNum 1)]) 500 ''INTERNAL_SERVER_ERROR'' seed_db
   \<and> rejected (authenticateToken example_jwt seed_db None) 401 ''AUTH_TOKEN_MISSING''
   \<and> rejected (authenticateToken example_jwt seed_db (Some ''Bearer bad'')) 403 ''AUTH_TOKEN_INVALID''
   \<and> rejected (authenticateToken example_jwt seed_db (Some ''Bearer user9'')) 401 ''AUTH_TOKEN_INVALID''"
  using validation_failure_is_internal_error [where z = example_zod and j = example_jwt and d = seed_db and user = john and user_id = "''user1''" and uuid = "''new-id''" and now = "''2024-01-01''" and expr = None and b = "[(''bio'', JNum 1), (''font_selection'', JNum 1)]" and project_id = "''project1''" and project = "hd seed_projects" and skill_id = "''skill1''" and skill = "hd seed_skills" and experience_id = "''exp1''" and experience = "hd seed_experience_timeline" and testimonial_id = "''test1''" and testimonial = "hd seed_testimonials" and post_id = "''post1''" and post = "hd seed_blog_posts" and header_a = None and header_b = "Some ''Bearer bad''" and token_b = "''bad''" and header_c = "Some ''Bearer user9''" and token_c = "''user9''" and decoded = "Some ''user9''"]
  by (simp add: john_def seed_db_def seed_users_def seed_projects_def seed_skills_def seed_experience_timeline_def seed_testimonials_def seed_blog_posts_def
      spread_def required_def optional_def nullable_optional_def
      createUserInputSchema_def updateUserProfileInputSchema_def createUserSettingsInputSchema_def
      createProjectInputSchema_def createSkillInputSchema_def createExperienceTimelineInputSchema_def
      createTestimonialInputSchema_def createBlogPostInputSchema_def createCommentInputSchema_def
      createVisitorMessageInputSchema_def bearer_token_def example_jwt_def)

section \<open>Uploads\<close>

lemma extname_txt: "extname ''notes.txt'' = ''.txt''"
  by (simp add: extname_def basename_def)

lemma post_upload_refused_file:
  assumes "authenticateToken j d authHeader = Inr user" and "\<not> fileFilter part"
  shows "post_upload j now rnd d fs authHeader uploadType (Some part) = (reply 500 DefaultErrorPage, fs)"
  using assms by (simp add: post_upload_def upload_single_def)

lemma post_upload_accepted_file:
  assumes "authenticateToken j d authHeader = Inr user" and "fileFilter part"
    and "file_size part \<le> 5 * 1024 * 1024"
  shows "post_upload j now rnd d fs authHeader uploadType (Some part) =
     (reply 200 (UploadBody (''/uploads/'' @ uploadType @ ''/'' @ generated_filename now rnd part)
                  (generated_filename now rnd part) (originalname part) (file_size part)),
      fs @ [\<lparr>directory = destination uploadType, filename = generated_filename now rnd part,
             bytes = file_size part\<rparr>])"
  using assms by (simp add: post_upload_def upload_single_def fileSize_limit_def)

text \<open>
  C8, as the claim states it, fails: an authenticated upload of
  \<^verbatim>\<open>notes.txt\<close> to \<^verbatim>\<open>/api/upload/profile\<close> is answered with 500 by the
  framework's default error handler, not with 400; nothing is written.
\<close>

theorem upload_txt_status_counterexample:
  "post_upload example_jwt ''1700000000000'' ''123456789'' seed_db [] (Some ''Bearer user1'')
     ''profile'' (Some \<lparr>originalname = ''notes.txt'', mimetype = ''text/plain'', file_size = 10\<rparr>)
     = (reply 500 DefaultErrorPage, [])
   \<and> status (fst (post_upload example_jwt ''1700000000000'' ''123456789'' seed_db []
        (Some ''Bearer user1'') ''profile''
        (Some \<lparr>originalname = ''notes.txt'', mimetype = ''text/plain'', file_size = 10\<rparr>))) \<noteq> 400"
  by (simp add: post_upload_def upload_single_def fileFilter_def allowedTypes_test_def
      authenticateToken_def bearer_token_def example_jwt_def seed_db_def seed_users_def reply_def)

text \<open>
  C8, amended. For an authenticated upload: a file is accepted exactly when
  its declared content type and the lower-cased extension of its original name
  each contain one of \<^verbatim>\<open>jpeg\<close>, \<^verbatim>\<open>jpg\<close>, \<^verbatim>\<open>png\<close>, \<^verbatim>\<open>gif\<close>, \<^verbatim>\<open>webp\<close>. A
  file that is not accepted, such as one whose extension is \<^verbatim>\<open>.txt\<close>, makes the
  request fail with status 500 and the default error page, and the stored
  files are unchanged. An accepted file of at most 5 MiB is appended to the
  directory of its category under the name made of the time stamp, a dash, the
  random number and the extension of the original name (so two files with the
  same extension get the same name for the same time stamp and random number,
  whatever the client called them), and the answer is 200 and carries that
  name, the original name and the size.
\<close>

theorem upload_policy:
  assumes "authenticateToken j d authHeader = Inr user"
  shows "(fileFilter part \<longleftrightarrow>
            allowedTypes_test (mimetype part)
            \<and> allowedTypes_test (toLowerCase (extname (originalname part))))
   \<and> (toLowerCase (extname (originalname part)) = ''.txt'' \<longrightarrow> \<not> fileFilter part)
   \<and> (\<not> fileFilter part \<longrightarrow>
         post_upload j now rnd d fs authHeader uploadType (Some part)
           = (reply 500 DefaultErrorPage, fs))
   \<and> (fileFilter part \<and> file_size part \<le> 5 * 1024 * 1024 \<longrightarrow>
         status (fst (post_upload j now rnd d fs authHeader uploadType (Some part))) = 200
         \<and> upload_fields (body (fst (post_upload j now rnd d fs authHeader uploadType (Some part))))
             = Some (now @ ''-'' @ rnd @ extname (originalname part), originalname part,
                     file_size part)
         \<and> snd (post_upload j now rnd d fs authHeader uploadType (Some part))
             = fs @ [\<lparr>directory = destination uploadType,
                      filename = now @ ''-'' @ rnd @ extname (originalname part),
                      bytes = file_size part\<rparr>])
   \<and> (extname (originalname part) = extname (originalname other) \<longrightarrow>
         generated_filename now rnd part = generated_filename now rnd other)"
proof -
  have no_txt: "\<not> allowedTypes_test ''.txt''"
    by (simp add: allowedTypes_test_def)
  show ?thesis
    using post_upload_refused_file [OF assms, of part now rnd fs uploadType]
      post_upload_accepted_file [OF assms, of part now rnd fs uploadType] no_txt
    by (auto simp: fileFilter_def generated_filename_def reply_def)
qed

theorem upload_policy_witness:
  "status (fst (post_upload example_jwt ''1700000000000'' ''123456789'' seed_db []
      (Some ''Bearer user1'') ''profile''
      (Some \<lparr>originalname = ''me.PNG'', mimetype = ''image/png'', file_size = 10\<rparr>))) = 200
   \<and> upload_fields (body (fst (post_upload example_jwt ''1700000000000'' ''123456789'' seed_db []
      (Some ''Bearer user1'') ''profile''
      (Some \<lparr>originalname = ''me.PNG'', mimetype = ''image/png'', file_size = 10\<rparr>))))
     = Some (''1700000000000-123456789.PNG'', ''me.PNG'', 10)
   \<and> snd (post_upload example_jwt ''1700000000000'' ''123456789'' seed_db []
      (Some ''Bearer user1'') ''profile''
      (Some \<lparr>originalname = ''me.PNG'', mimetype = ''image/png'', file_size = 10\<rparr>))
     = [\<lparr>directory = ''storage/uploads/profiles'', filename = ''1700000000000-123456789.PNG'',
         bytes = 10\<rparr>]"
proof -
  have auth: "authenticateToken example_jwt seed_db (Some ''Bearer user1'') = Inr john"
    by (simp add: authenticateToken_def bearer_token_def example_jwt_def seed_db_def
        seed_users_def to_principal_def john_def)
  have ext: "extname ''me.PNG'' = ''.PNG''"
    by (simp add: extname_def basename_def)
  have ok: "fileFilter \<lparr>originalname = ''me.PNG'', mimetype = ''image/png'', file_size = 10\<rparr>"
    by (simp add: fileFilter_def ext toLowerCase_def allowedTypes_test_def)
  show ?thesis
    using upload_policy [OF auth, where part = "\<lparr>originalname = ''me.PNG'', mimetype = ''image/png'',
        file_size = 10\<rparr>" and now = "''1700000000000''" and rnd = "''123456789''" and fs = "[]"
        and uploadType = "''profile''" and other = "\<lparr>originalname = ''me.PNG'',
        mimetype = ''image/png'', file_size = 10\<rparr>"] ok
    by (simp add: ext destination_def)
qed


section \<open>Updating a project\<close>

text \<open>
  The profile update is selective and idempotent: a field that is absent from
  the validated payload keeps its value, a \<^verbatim>\<open>null\<close> is written. The project
  update is idempotent, but it writes all four columns.
\<close>

lemma assign_idem: "assign x (assign x old) = assign x old"
  by (cases x) simp_all

lemma update_profile_row_idem: "update_profile_row v (update_profile_row v r) = update_profile_row v r"
  by (simp add: update_profile_row_def assign_idem)

lemma update_profile_row_absent:
  "uu_bio v = Undefined \<Longrightarrow> bio (update_profile_row v r) = bio r"
  "uu_bio v = Null \<Longrightarrow> bio (update_profile_row v r) = None"
  by (simp_all add: update_profile_row_def)

lemma update_project_row_idem: "update_project_row v (update_project_row v p) = update_project_row v p"
  by (simp add: update_project_row_def)

lemma update_project_row_absent:
  "cp_description v = Undefined \<Longrightarrow> pr_description (update_project_row v p) = None"
  by (simp add: update_project_row_def)

text \<open>
  C3. On the seeded store, the owner's update of \<open>project1\<close> with a payload
  that carries only \<open>user_id\<close> and \<open>title\<close> is accepted and writes
  \<^verbatim>\<open>NULL\<close> into \<open>description\<close>, \<open>images\<close> and \<open>project_url\<close>, which held
  values before; the payload that carries the title alone is rejected by the
  validator (the schema asks for \<open>user_id\<close>), answered with 500, and changes
  nothing.
\<close>

theorem patch_project_overwrites_absent_fields:
  "find (\<lambda>p. pr_project_id p = ''project1'') (projects seed_db)
     = Some \<lparr>pr_project_id = ''project1'', pr_user_id = ''user1'', pr_title = ''Amazing Project'',
             pr_description = Some ''This is a description of an amazing project.'',
             pr_images = Some [''https://picsum.photos/seed/project1/200''],
             pr_project_url = Some ''https://example.com/amazing-project''\<rparr>
   \<and> status (fst (patch_project example_zod seed_db john ''project1''
         [(''user_id'', JStr ''user1''), (''title'', JStr ''X'')])) = 200
   \<and> find (\<lambda>p. pr_project_id p = ''project1'')
         (projects (snd (patch_project example_zod seed_db john ''project1''
            [(''user_id'', JStr ''user1''), (''title'', JStr ''X'')])))
     = Some \<lparr>pr_project_id = ''project1'', pr_user_id = ''user1'', pr_title = ''X'',
             pr_description = None, pr_images = None, pr_project_url = None\<rparr>
   \<and> patch_project example_zod seed_db john ''project1'' [(''title'', JStr ''X'')]
     = (internal_error ZodError, seed_db)"
  by (simp add: patch_project_def createProjectInputSchema_def required_def nullable_optional_def
      update_project_row_def with_parsed_images_def john_def seed_db_def seed_projects_def
      reply_def)

section \<open>Registering an e-mail twice\<close>

text \<open>
  C4. On the seeded store, after \<^verbatim>\<open>a@x.com\<close> has registered, a registration
  with \<^verbatim>\<open>A@X.com\<close> passes the existence check (which compares the e-mail as
  it was sent), fails on the insert of the lower-cased e-mail against the
  unique constraint, and is answered with 500; no user row is added. The same
  second request with \<^verbatim>\<open>a@x.com\<close> is answered with 400.
\<close>

theorem register_case_variant_is_internal_error:
  "status (fst (register example_zod example_jwt ''user3'' ''2024-01-01'' seed_db
       [(''email'', JStr ''a@x.com''), (''password_hash'', JStr ''secret''), (''name'', JStr ''A'')]))
     = 200
   \<and> fst (register example_zod example_jwt ''user4'' ''2024-01-02''
        (snd (register example_zod example_jwt ''user3'' ''2024-01-01'' seed_db
           [(''email'', JStr ''a@x.com''), (''password_hash'', JStr ''secret''),
            (''name'', JStr ''A'')]))
        [(''email'', JStr ''A@X.com''), (''password_hash'', JStr ''secret''), (''name'', JStr ''A'')])
     = reply 500 (ErrorResponse ''Internal server error'' (Some StoreError) ''INTERNAL_SERVER_ERROR'')
   \<and> snd (register example_zod example_jwt ''user4'' ''2024-01-02''
        (snd (register example_zod example_jwt ''user3'' ''2024-01-01'' seed_db
           [(''email'', JStr ''a@x.com''), (''password_hash'', JStr ''secret''),
            (''name'', JStr ''A'')]))
        [(''email'', JStr ''A@X.com''), (''password_hash'', JStr ''secret''), (''name'', JStr ''A'')])
     = snd (register example_zod example_jwt ''user3'' ''2024-01-01'' seed_db
           [(''email'', JStr ''a@x.com''), (''password_hash'', JStr ''secret''),
            (''name'', JStr ''A'')])
   \<and> status (fst (register example_zod example_jwt ''user4'' ''2024-01-02''
        (snd (register example_zod example_jwt ''user3'' ''2024-01-01'' seed_db
           [(''email'', JStr ''a@x.com''), (''password_hash'', JStr ''secret''),
            (''name'', JStr ''A'')]))
        [(''email'', JStr ''a@x.com''), (''password_hash'', JStr ''secret''), (''name'', JStr ''A'')]))
     = 400"
proof -
  have lower: "trim (toLowerCase ''a@x.com'') = ''a@x.com''" "trim (toLowerCase ''A@X.com'') = ''a@x.com''"
    by (simp_all add: trim_def toLowerCase_def is_space_def)
  have parse: "createUserInputSchema example_zod
        [(''email'', JStr e), (''password_hash'', JStr ''secret''), (''name'', JStr ''A'')]
      = (if contains ''@'' e then Some \<lparr>cu_email = e, cu_password_hash = ''secret'', cu_name = Val ''A''\<rparr>
         else None)" for e
    by (simp add: createUserInputSchema_def required_def nullable_optional_def z_email_def
        example_zod_def)
  have first: "register example_zod example_jwt ''user3'' ''2024-01-01'' seed_db
        [(''email'', JStr ''a@x.com''), (''password_hash'', JStr ''secret''), (''name'', JStr ''A'')]
      = (reply 200 (AuthBody \<lparr>p_user_id = ''user3'', p_email = ''a@x.com'', p_name = Some ''A'',
                              p_created_at = ''2024-01-01''\<rparr> ''user3''),
         seed_db\<lparr>users := seed_users @
             [\<lparr>u_user_id = ''user3'', u_email = ''a@x.com'', u_password_hash = ''secret'',
               u_name = Some ''A'', u_created_at = ''2024-01-01''\<rparr>],
           user_profiles := seed_user_profiles @
             [\<lparr>up_user_id = ''user3'', profile_picture_url = None, cover_image_url = None,
               bio = None, contact_email = None, phone_number = None,
               social_media_links = None\<rparr>]\<rparr>)"
    by (simp add: register_def parse lower insert_user_def insert_user_profile_def
        user_exists_def to_principal_def example_jwt_def seed_db_def seed_users_def
        seed_user_profiles_def)
  show ?thesis
    unfolding first
    by (simp add: register_def parse lower insert_user_def seed_db_def seed_users_def
        internal_error_def createErrorResponse_def reply_def)
qed


end
